theory Spec2Isabelle
  imports Complex_Main
begin

section \<open>Floating-point cells\<close>

text \<open>
  Every field of the solver is a NumPy array of IEEE-754 doubles. A cell is modelled by
  the special values of IEEE-754 (signed zero, signed infinity, NaN) together with the
  finite non-zero values, on which arithmetic is exact: rounding, overflow and underflow
  of finite results are not modelled. \<open>Fin 0\<close> is \<open>+0.0\<close> and \<open>NZero\<close> is \<open>-0.0\<close>.
  NumPy does not raise on a division by zero or on an invalid operation: it returns
  an infinity or NaN (with a warning), and so do the operations below.
\<close>

datatype f64 = Fin real | NZero | PInf | NInf | NaN

fun neg_sign :: "f64 \<Rightarrow> bool" where
  "neg_sign (Fin r) = (r < 0)"
| "neg_sign NZero = True"
| "neg_sign PInf = False"
| "neg_sign NInf = True"
| "neg_sign NaN = False"

fun is_zero :: "f64 \<Rightarrow> bool" where
  "is_zero (Fin r) = (r = 0)"
| "is_zero NZero = True"
| "is_zero _ = False"

fun is_inf :: "f64 \<Rightarrow> bool" where
  "is_inf PInf = True"
| "is_inf NInf = True"
| "is_inf _ = False"

fun is_nan :: "f64 \<Rightarrow> bool" where
  "is_nan NaN = True"
| "is_nan _ = False"

text \<open>\<open>np.isfinite\<close>: neither NaN nor an infinity.\<close>

fun is_finite :: "f64 \<Rightarrow> bool" where
  "is_finite (Fin r) = True"
| "is_finite NZero = True"
| "is_finite _ = False"

fun rval :: "f64 \<Rightarrow> real" where
  "rval (Fin r) = r"
| "rval _ = 0"

definition zero_of :: "bool \<Rightarrow> f64" where
  "zero_of s = (if s then NZero else Fin 0)"

definition inf_of :: "bool \<Rightarrow> f64" where
  "inf_of s = (if s then NInf else PInf)"

text \<open>Multiplication: the sign of the result is the exclusive or of the signs;
  infinity times zero is NaN.\<close>

definition fmul :: "f64 \<Rightarrow> f64 \<Rightarrow> f64" where
  "fmul x y =
     (if is_nan x \<or> is_nan y then NaN
      else if is_inf x \<or> is_inf y then
        (if is_zero x \<or> is_zero y then NaN else inf_of (neg_sign x \<noteq> neg_sign y))
      else if is_zero x \<or> is_zero y then zero_of (neg_sign x \<noteq> neg_sign y)
      else Fin (rval x * rval y))"

text \<open>Division: zero by zero and infinity by infinity are NaN; a non-zero value by
  zero is an infinity.\<close>

definition fdiv :: "f64 \<Rightarrow> f64 \<Rightarrow> f64" where
  "fdiv x y =
     (if is_nan x \<or> is_nan y then NaN
      else if is_inf x then (if is_inf y then NaN else inf_of (neg_sign x \<noteq> neg_sign y))
      else if is_inf y then zero_of (neg_sign x \<noteq> neg_sign y)
      else if is_zero y then (if is_zero x then NaN else inf_of (neg_sign x \<noteq> neg_sign y))
      else if is_zero x then zero_of (neg_sign x \<noteq> neg_sign y)
      else Fin (rval x / rval y))"

text \<open>Addition: opposite infinities give NaN; \<open>-0.0 + -0.0 = -0.0\<close>, every other sum
  that is zero is \<open>+0.0\<close> (rounding to nearest).\<close>

fun fadd :: "f64 \<Rightarrow> f64 \<Rightarrow> f64" where
  "fadd NaN _ = NaN"
| "fadd _ NaN = NaN"
| "fadd PInf NInf = NaN"
| "fadd NInf PInf = NaN"
| "fadd PInf _ = PInf"
| "fadd _ PInf = PInf"
| "fadd NInf _ = NInf"
| "fadd _ NInf = NInf"
| "fadd NZero NZero = NZero"
| "fadd NZero (Fin b) = Fin b"
| "fadd (Fin a) NZero = Fin a"
| "fadd (Fin a) (Fin b) = Fin (a + b)"

fun fneg :: "f64 \<Rightarrow> f64" where
  "fneg (Fin r) = (if r = 0 then NZero else Fin (- r))"
| "fneg NZero = Fin 0"
| "fneg PInf = NInf"
| "fneg NInf = PInf"
| "fneg NaN = NaN"

definition fsub :: "f64 \<Rightarrow> f64 \<Rightarrow> f64" where
  "fsub x y = fadd x (fneg y)"

text \<open>\<open>np.absolute\<close>.\<close>

fun fabs :: "f64 \<Rightarrow> f64" where
  "fabs (Fin r) = Fin \<bar>r\<bar>"
| "fabs NZero = Fin 0"
| "fabs PInf = PInf"
| "fabs NInf = PInf"
| "fabs NaN = NaN"

text \<open>\<open>x ** (-1)\<close>: the reciprocal, with \<open>(\<plusminus>0) ** -1 = \<plusminus>inf\<close> and
  \<open>(\<plusminus>inf) ** -1 = \<plusminus>0\<close>.\<close>

definition fpow_m1 :: "f64 \<Rightarrow> f64" where
  "fpow_m1 x = fdiv (Fin 1) x"

text \<open>The comparisons \<open><\<close> and \<open>==\<close> of IEEE-754: false on NaN, and the two zeros
  are equal.\<close>

fun flt :: "f64 \<Rightarrow> f64 \<Rightarrow> bool" where
  "flt NaN _ = False"
| "flt _ NaN = False"
| "flt PInf _ = False"
| "flt _ PInf = True"
| "flt _ NInf = False"
| "flt NInf _ = True"
| "flt x y = (rval x < rval y)"

fun feq :: "f64 \<Rightarrow> f64 \<Rightarrow> bool" where
  "feq NaN _ = False"
| "feq _ NaN = False"
| "feq PInf y = (y = PInf)"
| "feq NInf y = (y = NInf)"
| "feq x PInf = False"
| "feq x NInf = False"
| "feq x y = (rval x = rval y)"

section \<open>Mixture bounds and fuel constants\<close>

text \<open>Module-level constants for \<open>fuel_type = 'methane'\<close> (lines 135-140).\<close>

definition Wf :: real where "Wf = 0.016"
definition Wo :: real where "Wo = 0.032"
definition Wp :: real where "Wp = 0.062"
definition cp :: real where "cp = 1450"

text \<open>\<open>get_min_max_zf_zo\<close> (lines 147-152) computes on Python floats from two
  constants; its argument is not read.\<close>

definition get_min_max_zf_zo :: "f64 \<Rightarrow> real \<times> real \<times> real \<times> real" where
  "get_min_max_zf_zo eq =
     (let eq_min = 0.8;
          eq_max = 1.0;
          Zf_min = 1 / (1 + (4 * 4.29 / eq_min));
          Zf_max = 1 / (1 + (4 * 4.29 / eq_max));
          Zo_min = 1 - Zf_max;
          Zo_max = 1 - Zf_min
      in (Zf_min, Zf_max, Zo_min, Zo_max))"

section \<open>Errors\<close>

text \<open>The source has no \<open>raise\<close> statement of its own. The exceptions that can leave it
  are those of NumPy indexing and assignment (\<open>IndexError\<close>, \<open>ValueError\<close>), of
  arithmetic on \<open>None\<close> (\<open>TypeError\<close>), and whatever a library call raises.\<close>

datatype error = IndexError | ValueError | TypeError | LibError string

type_synonym 'a result = "error + 'a"

definition bind_r :: "'a result \<Rightarrow> ('a \<Rightarrow> 'b result) \<Rightarrow> 'b result" where
  "bind_r m f = (case m of Inl e \<Rightarrow> Inl e | Inr x \<Rightarrow> f x)"

definition returns :: "'a result \<Rightarrow> bool" where
  "returns m = (case m of Inl e \<Rightarrow> False | Inr x \<Rightarrow> True)"

section \<open>NumPy arrays\<close>

text \<open>An array is its shape and its cells. Field data have four axes
  \<open>(batch, y, x, component)\<close>, the roughness array three \<open>(layer, row, column)\<close>.
  Only the cells inside the shape are cells of the array.\<close>

record arr4 =
  shape4 :: "nat \<times> nat \<times> nat \<times> nat"
  cell4 :: "nat \<Rightarrow> nat \<Rightarrow> nat \<Rightarrow> nat \<Rightarrow> f64"

record arr3 =
  shape3 :: "nat \<times> nat \<times> nat"
  cell3 :: "nat \<Rightarrow> nat \<Rightarrow> nat \<Rightarrow> f64"

record arr2 =
  shape2 :: "nat \<times> nat"
  cell2 :: "nat \<Rightarrow> nat \<Rightarrow> f64"

definition in_shape4 :: "arr4 \<Rightarrow> nat \<Rightarrow> nat \<Rightarrow> nat \<Rightarrow> nat \<Rightarrow> bool" where
  "in_shape4 a b i j c =
     (case shape4 a of (B, H, W, C) \<Rightarrow> b < B \<and> i < H \<and> j < W \<and> c < C)"

text \<open>Python slices \<open>lo:hi\<close> and \<open>lo:\<close> on an axis of length \<open>n\<close>: a negative bound
  counts from the end, and both bounds are clipped to the axis.\<close>

definition slice_bound :: "nat \<Rightarrow> int \<Rightarrow> nat" where
  "slice_bound n a = (if a < 0 then nat (max (a + int n) 0) else min (nat a) n)"

definition in_slice :: "nat \<Rightarrow> int \<Rightarrow> int \<Rightarrow> nat \<Rightarrow> bool" where
  "in_slice n lo hi i = (slice_bound n lo \<le> i \<and> i < slice_bound n hi)"

definition in_slice_from :: "nat \<Rightarrow> int \<Rightarrow> nat \<Rightarrow> bool" where
  "in_slice_from n lo i = (slice_bound n lo \<le> i \<and> i < n)"

definition slice_len :: "nat \<Rightarrow> int \<Rightarrow> int \<Rightarrow> nat" where
  "slice_len n lo hi = slice_bound n hi - slice_bound n lo"

text \<open>An assigned value broadcasts along an axis when it has the axis's length or
  length one.\<close>

definition bc_dim :: "nat \<Rightarrow> nat \<Rightarrow> bool" where
  "bc_dim v t = (v = t \<or> v = 1)"

text \<open>\<open>int(res / 4)\<close>: true division, then truncation towards zero.\<close>

definition int_quarter :: "int \<Rightarrow> int" where
  "int_quarter res = (if 0 \<le> res then res div 4 else - ((- res) div 4))"

definition np_ones :: "nat \<times> nat \<times> nat \<times> nat \<Rightarrow> arr4" where
  "np_ones shp = \<lparr>shape4 = shp, cell4 = (\<lambda>b i j c. Fin 1)\<rparr>"

definition np_zeros :: "nat \<times> nat \<times> nat \<times> nat \<Rightarrow> arr4" where
  "np_zeros shp = \<lparr>shape4 = shp, cell4 = (\<lambda>b i j c. Fin 0)\<rparr>"

text \<open>Assignment to the cells selected by an index expression.\<close>

definition assign :: "(nat \<Rightarrow> nat \<Rightarrow> nat \<Rightarrow> nat \<Rightarrow> bool) \<Rightarrow>
    (nat \<Rightarrow> nat \<Rightarrow> nat \<Rightarrow> nat \<Rightarrow> f64) \<Rightarrow> arr4 \<Rightarrow> arr4" where
  "assign sel v a =
     a\<lparr>cell4 := (\<lambda>b i j c. if sel b i j c then v b i j c else cell4 a b i j c)\<rparr>"

text \<open>Elementwise arithmetic of two arrays of one shape, and of an array and a
  scalar. At every use below the two arrays have the same shape.\<close>

definition arr_mul :: "arr4 \<Rightarrow> arr4 \<Rightarrow> arr4" where
  "arr_mul a m = a\<lparr>cell4 := (\<lambda>b i j c. fmul (cell4 a b i j c) (cell4 m b i j c))\<rparr>"

definition arr_add :: "arr4 \<Rightarrow> arr4 \<Rightarrow> arr4" where
  "arr_add a m = a\<lparr>cell4 := (\<lambda>b i j c. fadd (cell4 a b i j c) (cell4 m b i j c))\<rparr>"

definition arr_sub :: "arr4 \<Rightarrow> arr4 \<Rightarrow> arr4" where
  "arr_sub a m = a\<lparr>cell4 := (\<lambda>b i j c. fsub (cell4 a b i j c) (cell4 m b i j c))\<rparr>"

definition arr_div :: "arr4 \<Rightarrow> arr4 \<Rightarrow> arr4" where
  "arr_div a m = a\<lparr>cell4 := (\<lambda>b i j c. fdiv (cell4 a b i j c) (cell4 m b i j c))\<rparr>"

definition arr_scale :: "arr4 \<Rightarrow> f64 \<Rightarrow> arr4" where
  "arr_scale a k = a\<lparr>cell4 := (\<lambda>b i j c. fmul (cell4 a b i j c) k)\<rparr>"

definition arr_pow_m1 :: "arr4 \<Rightarrow> arr4" where
  "arr_pow_m1 a = a\<lparr>cell4 := (\<lambda>b i j c. fpow_m1 (cell4 a b i j c))\<rparr>"

section \<open>Grids\<close>

text \<open>A \<open>CenteredGrid\<close> is its data and its box. A two-dimensional \<open>StaggeredGrid\<close>
  holds one array per axis: \<open>data[0]\<close> is the y-component and \<open>data[1]\<close> the
  x-component.\<close>

type_synonym box = "real list \<times> real list"

record cgrid =
  gdata :: arr4
  gbox :: box

record staggered =
  vy :: arr4
  vx :: arr4
  sbox :: box

section \<open>Boundary policy\<close>

text \<open>\<open>np.absolute(x) * 4 + 6\<close> (lines 162 and 163), at one cell.\<close>

definition inflow :: "f64 \<Rightarrow> f64" where
  "inflow x = fadd (fmul (fabs x) (Fin 4)) (Fin 6)"

text \<open>\<open>VelocityBoundary_y\<close> (lines 159-171). The parameters \<open>rd_yk\<close> and
  \<open>equi_ratio\<close> are not read. The first assignment writes
  \<open>|rd_array[0:1, 0:res, 0]| * 4 + 6\<close> into batch 0, row 0, columns \<open>0:res\<close>,
  component 0; the second writes \<open>|rd_array[0:1, -1, 0]| * 4 + 6\<close> into column
  \<open>res:res+1\<close>.\<close>

definition VelocityBoundary_y ::
    "staggered \<Rightarrow> arr3 \<Rightarrow> int \<Rightarrow> arr2 \<Rightarrow> f64 \<Rightarrow> (arr4 \<times> arr4) result" where
  "VelocityBoundary_y field rd_array res rd_yk equi_ratio =
     (case shape4 (vy field) of (B, H, W, C) \<Rightarrow>
      case shape3 rd_array of (L, R, K) \<Rightarrow>
      let vn0 = np_zeros (B, H, W, C) in
      if K = 0 then Inl IndexError
      else if B = 0 \<or> C = 0 then Inl IndexError
      else if \<not> (bc_dim (min 1 L) (min 1 H) \<and> bc_dim (slice_len R 0 res) (slice_len W 0 res))
        then Inl ValueError
      else
      let vn1 = assign (\<lambda>b i j c. b = 0 \<and> in_slice H 0 1 i \<and> in_slice W 0 res j \<and> c = 0)
                  (\<lambda>b i j c. inflow (cell3 rd_array 0
                       (if slice_len R 0 res = 1 then 0 else j) 0)) vn0 in
      if R = 0 then Inl IndexError
      else if \<not> bc_dim (min 1 L) (slice_len W res (res + 1)) then Inl ValueError
      else
      let vn2 = assign (\<lambda>b i j c. b = 0 \<and> in_slice H 0 1 i \<and> in_slice W res (res + 1) j \<and> c = 0)
                  (\<lambda>b i j c. inflow (cell3 rd_array 0 (R - 1) 0)) vn1;
          velBCy = vn2;
          vm0 = np_ones (B, H, W, C);
          vm1 = assign (\<lambda>b i j c. in_slice H 0 1 i \<and> c = 0) (\<lambda>b i j c. Fin 0) vm0;
          vm2 = assign (\<lambda>b i j c. in_slice_from H (int_quarter res) i \<and> in_slice W 0 1 j \<and> c = 0)
                  (\<lambda>b i j c. Fin 0) vm1;
          vm3 = assign (\<lambda>b i j c. in_slice_from H (int_quarter res) i \<and>
                                   in_slice_from W (res - 1) j \<and> c = 0)
                  (\<lambda>b i j c. Fin 0) vm2;
          velBCyMask = vm3
      in Inr (velBCy, velBCyMask))"

text \<open>\<open>VelocityBoundary_x\<close> (lines 173-178).\<close>

definition VelocityBoundary_x :: "staggered \<Rightarrow> (arr4 \<times> arr4) result" where
  "VelocityBoundary_x field =
     (case shape4 (vx field) of (B, H, W, C) \<Rightarrow>
      let vn0 = np_ones (B, H, W, C) in
      if C = 0 then Inl IndexError
      else
      let vn1 = assign (\<lambda>b i j c. in_slice H 0 1 i \<and> c = 0) (\<lambda>b i j c. Fin 0) vn0;
          velBCx = vn1;
          velBCxMask = vn1
      in Inr (velBCx, velBCxMask))"

text \<open>The velocity update of lines 225-231: each component multiplied by its mask,
  the y-component then increased by its boundary values.\<close>

definition velocity_bc :: "staggered \<Rightarrow> arr3 \<Rightarrow> int \<Rightarrow> arr2 \<Rightarrow> f64 \<Rightarrow> staggered result" where
  "velocity_bc velocity rd_array res rd_yk equi_ratio =
     (let cx = vx velocity; cy = vy velocity in
      bind_r (VelocityBoundary_y velocity rd_array res rd_yk equi_ratio) (\<lambda>(velBCy, velBCyMask).
      bind_r (VelocityBoundary_x velocity) (\<lambda>(velBCx, velBCxMask).
      let cy1 = arr_add (arr_mul cy velBCyMask) velBCy;
          cx1 = arr_mul cx velBCxMask
      in Inr \<lparr>vy = cy1, vx = cx1, sbox = sbox velocity\<rparr>)))"

text \<open>The species update of lines 250-257, for one species with boundary value \<open>z\<close>
  (\<open>Zf_max\<close> for the fuel, \<open>Zo_min\<close> for the oxidizer).\<close>

definition species_bc :: "real \<Rightarrow> cgrid \<Rightarrow> cgrid" where
  "species_bc z Y =
     (case shape4 (gdata Y) of (B, H, W, C) \<Rightarrow>
      let y_mask0 = np_ones (B, H, W, C);
          y0 = np_zeros (B, H, W, C);
          y_mask = assign (\<lambda>b i j c. in_slice H 0 1 i) (\<lambda>b i j c. Fin 0) y_mask0;
          y = assign (\<lambda>b i j c. in_slice H 0 1 i) (\<lambda>b i j c. Fin z) y0
      in \<lparr>gdata = arr_add (arr_mul (gdata Y) y_mask) y, gbox = gbox Y\<rparr>)"

text \<open>The temperature update of lines 259-265.\<close>

definition temperature_bc :: "int \<Rightarrow> cgrid \<Rightarrow> cgrid" where
  "temperature_bc res temperature =
     (case shape4 (gdata temperature) of (B, H, W, C) \<Rightarrow>
      let temp_mask0 = np_ones (B, H, W, C);
          tempBC0 = np_zeros (B, H, W, C);
          temp_mask1 = assign (\<lambda>b i j c. in_slice H 0 1 i) (\<lambda>b i j c. Fin 0) temp_mask0;
          temp_mask2 = assign (\<lambda>b i j c. in_slice H (res - 1) res i) (\<lambda>b i j c. Fin 0) temp_mask1;
          tempBC1 = assign (\<lambda>b i j c. in_slice H 0 1 i) (\<lambda>b i j c. Fin 800) tempBC0;
          tempBC2 = assign (\<lambda>b i j c. in_slice H (res - 1) res i) (\<lambda>b i j c. Fin 2000) tempBC1
      in \<lparr>gdata = arr_add (arr_mul (gdata temperature) temp_mask2) tempBC2,
          gbox = gbox temperature\<rparr>)"

section \<open>State equation and roughness normalization\<close>

text \<open>Line 209, at one cell:
  \<open>(1.0 / 8.314) * pressure * (((Yf * (1 / Wf) + Yo * (1 / Wo) + (1-Yf-Yo) * (1 / Wp)) * temperature) ** (-1))\<close>.\<close>

definition state_equation_cell :: "f64 \<Rightarrow> f64 \<Rightarrow> f64 \<Rightarrow> f64 \<Rightarrow> f64" where
  "state_equation_cell p T yf yo =
     fmul (fmul (Fin (1.0 / 8.314)) p)
       (fpow_m1 (fmul (fadd (fadd (fmul yf (Fin (1 / Wf))) (fmul yo (Fin (1 / Wo))))
                        (fmul (fsub (fsub (Fin 1) yf) yo) (Fin (1 / Wp)))) T))"

definition state_equation :: "cgrid \<Rightarrow> cgrid \<Rightarrow> cgrid \<Rightarrow> cgrid \<Rightarrow> cgrid" where
  "state_equation p T yf yo =
     \<lparr>gdata = (gdata p)\<lparr>cell4 := (\<lambda>b i j c.
         state_equation_cell (cell4 (gdata p) b i j c) (cell4 (gdata T) b i j c)
           (cell4 (gdata yf) b i j c) (cell4 (gdata yo) b i j c))\<rparr>,
      gbox = gbox p\<rparr>"

text \<open>\<open>rd_array[20, :, :]\<close> (line 206).\<close>

definition layer20 :: "arr3 \<Rightarrow> arr2 result" where
  "layer20 rd_array =
     (case shape3 rd_array of (L, R, K) \<Rightarrow>
      if L \<le> 20 then Inl IndexError
      else Inr \<lparr>shape2 = (R, K), cell2 = (\<lambda>i j. cell3 rd_array 20 i j)\<rparr>)"

definition cells2 :: "arr2 \<Rightarrow> f64 list" where
  "cells2 a = (case shape2 a of (R, K) \<Rightarrow>
     concat (map (\<lambda>i. map (\<lambda>j. cell2 a i j) [0..<K]) [0..<R]))"

text \<open>\<open>np.min\<close> and \<open>np.max\<close>: NaN if a cell is NaN, \<open>ValueError\<close> on an array with
  no cell. Which of the two zeros a tie returns cannot be seen through \<open>==\<close>.\<close>

definition min2 :: "f64 \<Rightarrow> f64 \<Rightarrow> f64" where
  "min2 a b = (if is_nan a then a else if is_nan b then b else if flt b a then b else a)"

definition max2 :: "f64 \<Rightarrow> f64 \<Rightarrow> f64" where
  "max2 a b = (if is_nan a then a else if is_nan b then b else if flt a b then b else a)"

fun np_min :: "f64 list \<Rightarrow> f64 result" where
  "np_min [] = Inl ValueError"
| "np_min (x # xs) = Inr (foldl min2 x xs)"

fun np_max :: "f64 list \<Rightarrow> f64 result" where
  "np_max [] = Inl ValueError"
| "np_max (x # xs) = Inr (foldl max2 x xs)"

text \<open>Line 207: \<open>(rd_yk - np.min(rd_yk)) / (np.max(rd_yk) - np.min(rd_yk))\<close>.\<close>

definition normalize :: "arr2 \<Rightarrow> arr2 result" where
  "normalize rd_yk =
     bind_r (np_min (cells2 rd_yk)) (\<lambda>mn.
     bind_r (np_max (cells2 rd_yk)) (\<lambda>mx.
     bind_r (np_min (cells2 rd_yk)) (\<lambda>mn'.
       Inr (rd_yk\<lparr>cell2 := (\<lambda>i j. fdiv (fsub (cell2 rd_yk i j) mn) (fsub mx mn'))\<rparr>))))"

section \<open>The library\<close>

text \<open>The grid library (advection, diffusion, interpolation between storage layouts,
  the pressure solver, effects, domains and obstacles) is outside the repository. Its
  functions are the fields of a record, and each of them may raise.\<close>

type_synonym domain = "nat list"

datatype obstacle = Obstacle box

datatype gravity = Gravity "f64 list"

datatype effect = Effect nat

type_synonym solver = "nat option"

record FluidDomain =
  fd_domain :: domain
  fd_active :: cgrid
  fd_accessible :: cgrid

record lib =
  gravity_tensor :: "gravity \<Rightarrow> nat \<Rightarrow> f64 list result"
  semi_lagrangian_st :: "staggered \<Rightarrow> staggered \<Rightarrow> f64 \<Rightarrow> staggered result"
  semi_lagrangian_c :: "cgrid \<Rightarrow> staggered \<Rightarrow> f64 \<Rightarrow> cgrid result"
  diffuse_st :: "staggered \<Rightarrow> f64 \<Rightarrow> nat \<Rightarrow> staggered result"
  diffuse_c :: "cgrid \<Rightarrow> f64 \<Rightarrow> nat \<Rightarrow> cgrid result"
  buoyancy_at :: "cgrid \<Rightarrow> f64 list \<Rightarrow> f64 \<Rightarrow> f64 \<Rightarrow> staggered \<Rightarrow> staggered result"
  effect_applied_c :: "effect \<Rightarrow> cgrid \<Rightarrow> f64 \<Rightarrow> cgrid result"
  effect_applied_st :: "effect \<Rightarrow> staggered \<Rightarrow> f64 \<Rightarrow> staggered result"
  obstacle_grid :: "obstacle list \<Rightarrow> staggered \<Rightarrow> cgrid option result"
  ones_active :: "domain \<Rightarrow> cgrid result"
  accessible :: "cgrid \<Rightarrow> domain \<Rightarrow> cgrid result"
  at_staggered :: "cgrid \<Rightarrow> staggered \<Rightarrow> staggered result"
  divergence :: "staggered \<Rightarrow> cgrid result"
  solve_pressure :: "cgrid \<Rightarrow> FluidDomain \<Rightarrow> solver \<Rightarrow> (cgrid \<times> nat) result"
  dx0 :: "staggered \<Rightarrow> f64 result"
  gradient :: "cgrid \<Rightarrow> staggered result"
  with_hard_boundary_conditions :: "FluidDomain \<Rightarrow> staggered \<Rightarrow> staggered result"

text \<open>Arithmetic of grids is elementwise on their data and returns a new grid.\<close>

definition st_mul :: "staggered \<Rightarrow> staggered \<Rightarrow> staggered" where
  "st_mul u w = u\<lparr>vy := arr_mul (vy u) (vy w), vx := arr_mul (vx u) (vx w)\<rparr>"

definition st_div :: "staggered \<Rightarrow> staggered \<Rightarrow> staggered" where
  "st_div u w = u\<lparr>vy := arr_div (vy u) (vy w), vx := arr_div (vx u) (vx w)\<rparr>"

definition st_add :: "staggered \<Rightarrow> staggered \<Rightarrow> staggered" where
  "st_add u w = u\<lparr>vy := arr_add (vy u) (vy w), vx := arr_add (vx u) (vx w)\<rparr>"

definition st_sub :: "staggered \<Rightarrow> staggered \<Rightarrow> staggered" where
  "st_sub u w = u\<lparr>vy := arr_sub (vy u) (vy w), vx := arr_sub (vx u) (vx w)\<rparr>"

definition g_add :: "cgrid \<Rightarrow> cgrid \<Rightarrow> cgrid" where
  "g_add u w = u\<lparr>gdata := arr_add (gdata u) (gdata w)\<rparr>"

definition g_sub :: "cgrid \<Rightarrow> cgrid \<Rightarrow> cgrid" where
  "g_sub u w = u\<lparr>gdata := arr_sub (gdata u) (gdata w)\<rparr>"

definition g_mul :: "cgrid \<Rightarrow> cgrid \<Rightarrow> cgrid" where
  "g_mul u w = u\<lparr>gdata := arr_mul (gdata u) (gdata w)\<rparr>"

definition g_scale :: "cgrid \<Rightarrow> f64 \<Rightarrow> cgrid" where
  "g_scale u k = u\<lparr>gdata := arr_scale (gdata u) k\<rparr>"

definition g_pow_m1 :: "cgrid \<Rightarrow> cgrid" where
  "g_pow_m1 u = u\<lparr>gdata := arr_pow_m1 (gdata u)\<rparr>"

definition one_minus :: "cgrid \<Rightarrow> cgrid" where
  "one_minus u = u\<lparr>gdata := (gdata u)\<lparr>cell4 := (\<lambda>b i j c. fsub (Fin 1) (cell4 (gdata u) b i j c))\<rparr>\<rparr>"

section \<open>Pressure projection\<close>

text \<open>The information returned by \<open>divergence_free\<close> is a dictionary with the keys
  \<open>pressure_c\<close>, \<open>iterations\<close> and \<open>divergence\<close>.\<close>

datatype info = InfoGrid cgrid | InfoInt nat

type_synonym solve_info = "(string \<times> info) list"

text \<open>\<open>divergence_free\<close> (lines 100-132), called with a domain and
  \<open>return_info=True\<close>.\<close>

definition divergence_free :: "lib \<Rightarrow> staggered \<Rightarrow> cgrid \<Rightarrow> domain \<Rightarrow> obstacle list \<Rightarrow> solver \<Rightarrow>
    (staggered \<times> solve_info) result" where
  "divergence_free l velocity0 density0 domain0 obstacles pressure_solver =
     bind_r (obstacle_grid l obstacles velocity0) (\<lambda>obstacle_mask.
     bind_r (case obstacle_mask of
               Some og \<Rightarrow> Inr (one_minus og)
             | None \<Rightarrow> ones_active l domain0) (\<lambda>active_mask.
     bind_r (accessible l active_mask domain0) (\<lambda>accessible_mask.
     let fluiddomain = \<lparr>fd_domain = domain0, fd_active = active_mask,
                         fd_accessible = accessible_mask\<rparr> in
     bind_r (at_staggered l density0 velocity0) (\<lambda>density_at.
     let rho_u = st_mul velocity0 density_at in
     bind_r (divergence l rho_u) (\<lambda>divergence_field.
     bind_r (solve_pressure l divergence_field fluiddomain pressure_solver) (\<lambda>(pressure_c0, iterations).
     bind_r (dx0 l velocity0) (\<lambda>dx.
     let pressure_c = g_scale pressure_c0 dx in
     bind_r (gradient l pressure_c) (\<lambda>gradp.
     bind_r (at_staggered l density0 velocity0) (\<lambda>density_at2.
     bind_r (with_hard_boundary_conditions l fluiddomain (st_div gradp density_at2)) (\<lambda>corr.
     let velocity1 = st_sub velocity0 corr in
     Inr (velocity1, [(''pressure_c'', InfoGrid pressure_c), (''iterations'', InfoInt iterations),
                      (''divergence'', InfoGrid divergence_field)])))))))))))"

section \<open>The fluid state and the step\<close>

record SpFluid =
  domain :: domain
  velocity :: staggered
  temperature :: cgrid
  density :: cgrid
  pressure :: cgrid
  rd :: cgrid
  Yf :: cgrid
  Yo :: cgrid
  Wt :: cgrid
  Wkf :: cgrid
  Wko :: cgrid
  buoyancy_factor :: f64
  amp :: f64
  eq :: f64
  age :: f64
  solve_info :: solve_info

record SpEnergy =
  pressure_solver :: solver

fun effects_c :: "lib \<Rightarrow> effect list \<Rightarrow> cgrid \<Rightarrow> f64 \<Rightarrow> cgrid result" where
  "effects_c l [] d dt = Inr d"
| "effects_c l (e # es) d dt = bind_r (effect_applied_c l e d dt) (\<lambda>d'. effects_c l es d' dt)"

fun effects_st :: "lib \<Rightarrow> effect list \<Rightarrow> staggered \<Rightarrow> f64 \<Rightarrow> staggered result" where
  "effects_st l [] v dt = Inr v"
| "effects_st l (e # es) v dt = bind_r (effect_applied_st l e v dt) (\<lambda>v'. effects_st l es v' dt)"

text \<open>Lines 197-223, up to the call of \<open>divergence_free\<close>: the normalized roughness
  slice, the density, the projected velocity and the solver's information.\<close>

definition step_projection :: "lib \<Rightarrow> SpEnergy \<Rightarrow> SpFluid \<Rightarrow> arr3 \<Rightarrow> f64 \<Rightarrow> obstacle list \<Rightarrow>
    gravity \<Rightarrow> effect list \<Rightarrow> effect list \<Rightarrow> (arr2 \<times> cgrid \<times> staggered \<times> solve_info) result" where
  "step_projection l self fluid rd_array dt obstacles gravity0 density_effects velocity_effects =
     (let diffusion_substeps = 1 in
      bind_r (gravity_tensor l gravity0 (length (domain fluid))) (\<lambda>g.
      let velocity0 = velocity fluid;
          temperature0 = temperature fluid;
          pressure0 = pressure fluid;
          Yf0 = Yf fluid; Yo0 = Yo fluid in
      bind_r (layer20 rd_array) (\<lambda>rd_yk0.
      bind_r (normalize rd_yk0) (\<lambda>rd_yk.
      let density1 = state_equation pressure0 temperature0 Yf0 Yo0 in
      bind_r (semi_lagrangian_st l velocity0 velocity0 dt) (\<lambda>velocity1.
      bind_r (diffuse_st l velocity1 (fmul (Fin 0.1) dt) diffusion_substeps) (\<lambda>velocity2.
      bind_r (buoyancy_at l density1 g (buoyancy_factor fluid) dt velocity2) (\<lambda>force.
      let velocity3 = st_add velocity2 force in
      bind_r (effects_c l density_effects density1 dt) (\<lambda>density2.
      bind_r (effects_st l velocity_effects velocity3 dt) (\<lambda>velocity4.
      bind_r (divergence_free l velocity4 density2 (domain fluid) obstacles (pressure_solver self))
        (\<lambda>(velocity5, info).
      Inr (rd_yk, density2, velocity5, info)))))))))))"

text \<open>Line 239, \<open>temperature -= (wt * dt * ((density * cp)**(-1)))\<close>, and lines 244 and
  248, \<open>Y += wk * dt * (density ** -1)\<close>.\<close>

definition sub_heat :: "cgrid \<Rightarrow> cgrid \<Rightarrow> f64 \<Rightarrow> cgrid \<Rightarrow> cgrid" where
  "sub_heat temperature2 wt dt density2 =
     g_sub temperature2 (g_mul (g_scale wt dt) (g_pow_m1 (g_scale density2 (Fin cp))))"

definition add_source :: "cgrid \<Rightarrow> cgrid \<Rightarrow> f64 \<Rightarrow> cgrid \<Rightarrow> cgrid" where
  "add_source Y2 wk dt density2 = g_add Y2 (g_mul (g_scale wk dt) (g_pow_m1 density2))"

text \<open>Lines 225-269, after \<open>fluid.solve_info\<close> has been assigned. \<open>copied_with\<close>
  returns a shallow copy of the state with the given attributes replaced.\<close>

definition step_transport :: "lib \<Rightarrow> SpFluid \<Rightarrow> arr3 \<Rightarrow> int \<Rightarrow> f64 \<Rightarrow> arr2 \<Rightarrow> cgrid \<Rightarrow> staggered \<Rightarrow>
    SpFluid result" where
  "step_transport l fluid rd_array res dt rd_yk density2 velocity5 =
     (let diffusion_substeps = 1;
          wt = Wt fluid; wkf = Wkf fluid; wko = Wko fluid;
          (Zf_min, Zf_max, Zo_min, Zo_max) = get_min_max_zf_zo (eq fluid) in
      bind_r (velocity_bc velocity5 rd_array res rd_yk (eq fluid)) (\<lambda>velocity6.
      bind_r (case map_of (solve_info fluid) ''pressure_c'' of
                Some (InfoGrid pc) \<Rightarrow> Inr (g_add (pressure fluid) pc)
              | _ \<Rightarrow> Inl TypeError) (\<lambda>pressure1.
      bind_r (semi_lagrangian_c l (temperature fluid) velocity6 dt) (\<lambda>temperature1.
      bind_r (diffuse_c l temperature1 (fmul dt (Fin 0.1)) diffusion_substeps) (\<lambda>temperature2.
      let temperature3 = sub_heat temperature2 wt dt density2 in
      bind_r (semi_lagrangian_c l (Yf fluid) velocity6 dt) (\<lambda>Yf1.
      bind_r (diffuse_c l Yf1 (fmul (Fin 0.1) dt) diffusion_substeps) (\<lambda>Yf2.
      let Yf3 = add_source Yf2 wkf dt density2 in
      bind_r (semi_lagrangian_c l (Yo fluid) velocity6 dt) (\<lambda>Yo1.
      bind_r (diffuse_c l Yo1 (fmul (Fin 0.1) dt) diffusion_substeps) (\<lambda>Yo2.
      let Yo3 = add_source Yo2 wko dt density2;
          Yf4 = species_bc Zf_max Yf3;
          Yo4 = species_bc Zo_min Yo3;
          temperature4 = temperature_bc res temperature3
      in Inr (fluid\<lparr>velocity := velocity6, temperature := temperature4, density := density2,
                    pressure := pressure1, Yf := Yf4, Yo := Yo4, Wt := wt, Wkf := wkf,
                    Wko := wko, age := fadd (age fluid) dt\<rparr>))))))))))"

text \<open>\<open>SpEnergy.step\<close> (lines 195-269). The first component of the result is the
  state object that was passed in, as it is when the call ends; the second is what
  the call returns or raises. Line 223 assigns \<open>fluid.solve_info\<close> on that object.\<close>

definition step :: "lib \<Rightarrow> SpEnergy \<Rightarrow> SpFluid \<Rightarrow> arr3 \<Rightarrow> int \<Rightarrow> f64 \<Rightarrow> obstacle list \<Rightarrow>
    gravity \<Rightarrow> effect list \<Rightarrow> effect list \<Rightarrow> SpFluid \<times> SpFluid result" where
  "step l self fluid rd_array res dt obstacles gravity0 density_effects velocity_effects =
     (case step_projection l self fluid rd_array dt obstacles gravity0 density_effects
             velocity_effects of
        Inl e \<Rightarrow> (fluid, Inl e)
      | Inr (rd_yk, density2, velocity5, info) \<Rightarrow>
          let fluid1 = fluid\<lparr>solve_info := info\<rparr>
          in (fluid1, step_transport l fluid1 rd_array res dt rd_yk density2 velocity5))"

section \<open>Well-behaved libraries\<close>

text \<open>A library is total when none of its functions raises, and keeps shapes when
  advection, diffusion and effects return a velocity whose two arrays have the shapes
  of the velocity they were given.\<close>

definition lib_total :: "lib \<Rightarrow> bool" where
  "lib_total l =
     ((\<forall>g n. returns (gravity_tensor l g n)) \<and>
      (\<forall>f v dt. returns (semi_lagrangian_st l f v dt)) \<and>
      (\<forall>f v dt. returns (semi_lagrangian_c l f v dt)) \<and>
      (\<forall>f a n. returns (diffuse_st l f a n)) \<and>
      (\<forall>f a n. returns (diffuse_c l f a n)) \<and>
      (\<forall>d g k dt v. returns (buoyancy_at l d g k dt v)) \<and>
      (\<forall>e f dt. returns (effect_applied_c l e f dt)) \<and>
      (\<forall>e f dt. returns (effect_applied_st l e f dt)) \<and>
      (\<forall>obs v. returns (obstacle_grid l obs v)) \<and>
      (\<forall>d. returns (ones_active l d)) \<and>
      (\<forall>m d. returns (accessible l m d)) \<and>
      (\<forall>c v. returns (at_staggered l c v)) \<and>
      (\<forall>v. returns (divergence l v)) \<and>
      (\<forall>d fd s. returns (solve_pressure l d fd s)) \<and>
      (\<forall>v. returns (dx0 l v)) \<and>
      (\<forall>p. returns (gradient l p)) \<and>
      (\<forall>fd v. returns (with_hard_boundary_conditions l fd v)))"

definition same_shape :: "staggered \<Rightarrow> staggered \<Rightarrow> bool" where
  "same_shape v w = (shape4 (vy w) = shape4 (vy v) \<and> shape4 (vx w) = shape4 (vx v))"

definition lib_keeps_shape :: "lib \<Rightarrow> bool" where
  "lib_keeps_shape l =
     ((\<forall>f v dt w. semi_lagrangian_st l f v dt = Inr w \<longrightarrow> same_shape f w) \<and>
      (\<forall>f a n w. diffuse_st l f a n = Inr w \<longrightarrow> same_shape f w) \<and>
      (\<forall>e f dt w. effect_applied_st l e f dt = Inr w \<longrightarrow> same_shape f w))"

section \<open>Example inputs\<close>

text \<open>A \<open>2 \<times> 2\<close> grid with one batch entry: centered data of shape \<open>(1, 2, 2, 1)\<close>,
  y-velocity of shape \<open>(1, 3, 2, 1)\<close>, x-velocity of shape \<open>(1, 2, 3, 1)\<close>, and a
  roughness array of shape \<open>(21, 2, 2)\<close>. The example library transports nothing:
  advection, diffusion and effects return their field, the pressure solve returns
  the divergence it is given.\<close>

definition const_arr :: "nat \<times> nat \<times> nat \<times> nat \<Rightarrow> f64 \<Rightarrow> arr4" where
  "const_arr shp v = \<lparr>shape4 = shp, cell4 = (\<lambda>b i j c. v)\<rparr>"

definition const_grid :: "f64 \<Rightarrow> cgrid" where
  "const_grid v = \<lparr>gdata = const_arr (1, 2, 2, 1) v, gbox = ([0, 0], [2, 2])\<rparr>"

definition const_staggered :: "f64 \<Rightarrow> staggered" where
  "const_staggered v = \<lparr>vy = const_arr (1, 3, 2, 1) v, vx = const_arr (1, 2, 3, 1) v,
     sbox = ([0, 0], [2, 2])\<rparr>"

definition lib0 :: lib where
  "lib0 = \<lparr>gravity_tensor = (\<lambda>g n. Inr (replicate n (Fin 0))),
     semi_lagrangian_st = (\<lambda>f v dt. Inr f),
     semi_lagrangian_c = (\<lambda>f v dt. Inr f),
     diffuse_st = (\<lambda>f a n. Inr f),
     diffuse_c = (\<lambda>f a n. Inr f),
     buoyancy_at = (\<lambda>d g k dt v. Inr (const_staggered (Fin 0))),
     effect_applied_c = (\<lambda>e f dt. Inr f),
     effect_applied_st = (\<lambda>e f dt. Inr f),
     obstacle_grid = (\<lambda>obs v. Inr None),
     ones_active = (\<lambda>d. Inr (const_grid (Fin 1))),
     accessible = (\<lambda>m d. Inr m),
     at_staggered = (\<lambda>c v. Inr (const_staggered (Fin 1))),
     divergence = (\<lambda>v. Inr (const_grid (Fin 0))),
     solve_pressure = (\<lambda>d fd s. Inr (d, 0)),
     dx0 = (\<lambda>v. Inr (Fin 1)),
     gradient = (\<lambda>p. Inr (const_staggered (Fin 0))),
     with_hard_boundary_conditions = (\<lambda>fd v. Inr v)\<rparr>"

definition self0 :: SpEnergy where
  "self0 = \<lparr>pressure_solver = None\<rparr>"

text \<open>The uniform state of the specification's scenario (\<open>T = 800\<close>, \<open>Yf = 1\<close>,
  \<open>Yo = 0\<close>, zero velocity, \<open>eq = 1\<close>), with pressure \<open>p\<close> everywhere.\<close>

definition fluid0 :: "f64 \<Rightarrow> SpFluid" where
  "fluid0 p = \<lparr>domain = [2, 2], velocity = const_staggered (Fin 0),
     temperature = const_grid (Fin 800), density = const_grid (Fin 0),
     pressure = const_grid p, rd = const_grid (Fin 0),
     Yf = const_grid (Fin 1), Yo = const_grid (Fin 0),
     Wt = const_grid (Fin 0), Wkf = const_grid (Fin 0), Wko = const_grid (Fin 0),
     buoyancy_factor = Fin 0, amp = Fin 1, eq = Fin 1, age = Fin 0, solve_info = []\<rparr>"

text \<open>A state with mass fractions outside \<open>[0, 1]\<close> and negative temperature and
  density.\<close>

definition fluid_invalid :: SpFluid where
  "fluid_invalid = (fluid0 (Fin 101325))\<lparr>temperature := const_grid (Fin (- 5)),
     density := const_grid (Fin (- 1)), Yf := const_grid (Fin 2), Yo := const_grid (Fin (- 1))\<rparr>"

text \<open>Roughness arrays: layer 20 holds \<open>row + column\<close> and the other layers \<open>v\<close>;
  and the array that is \<open>5\<close> everywhere.\<close>

definition rd0 :: "f64 \<Rightarrow> arr3" where
  "rd0 v = \<lparr>shape3 = (21, 2, 2),
            cell3 = (\<lambda>l i j. if l = 20 then Fin (real (i + j)) else v)\<rparr>"

definition rd_const :: arr3 where
  "rd_const = \<lparr>shape3 = (21, 2, 2), cell3 = (\<lambda>l i j. Fin 5)\<rparr>"

definition rd_yk0 :: arr2 where
  "rd_yk0 = \<lparr>shape2 = (2, 2), cell2 = (\<lambda>i j. Fin 0)\<rparr>"

definition g0 :: gravity where
  "g0 = Gravity [Fin 0]"

text \<open>One step of the example state with pressure \<open>p\<close>, \<open>res = 2\<close>, \<open>dt = 0.01\<close>, no
  obstacles and no effects.\<close>

definition step0 :: "f64 \<Rightarrow> arr3 \<Rightarrow> SpFluid \<times> SpFluid result" where
  "step0 p rd_array = step lib0 self0 (fluid0 p) rd_array 2 (Fin 0.01) [] g0 [] []"

section \<open>Auxiliary facts: results and totality\<close>

lemma bind_r_Inr: "bind_r m f = Inr y \<Longrightarrow> \<exists>x. m = Inr x \<and> f x = Inr y"
  by (cases m) (simp_all add: bind_r_def)

lemma bind_r_simps [simp]: "bind_r (Inr x) f = f x" "bind_r (Inl e) f = Inl e"
  by (simp_all add: bind_r_def)

lemma returns_iff: "returns m \<longleftrightarrow> (\<exists>x. m = Inr x)"
  by (cases m) (simp_all add: returns_def)

lemma returns_projr: "returns m \<Longrightarrow> m = Inr (projr m)"
  by (cases m) (simp_all add: returns_def)

lemma same_shape_refl: "same_shape v v"
  by (simp add: same_shape_def)

lemma same_shape_trans: "same_shape u v \<Longrightarrow> same_shape v w \<Longrightarrow> same_shape u w"
  by (simp add: same_shape_def)

lemma length_cells2: "shape2 a = (R, K) \<Longrightarrow> length (cells2 a) = R * K"
  by (simp add: cells2_def length_concat comp_def sum_list_triv)

lemma normalize_returns:
  assumes "shape2 a = (R, K)" "0 < R" "0 < K"
  shows "\<exists>n. normalize a = Inr n"
proof -
  have "length (cells2 a) \<noteq> 0" using assms by (simp add: length_cells2)
  then obtain x xs where "cells2 a = x # xs" by (cases "cells2 a") auto
  then show ?thesis by (simp add: normalize_def)
qed

lemma lib_totalD:
  assumes "lib_total l"
  shows "\<exists>x. gravity_tensor l g n = Inr x"
    and "\<exists>x. semi_lagrangian_st l u v dt = Inr x"
    and "\<exists>x. semi_lagrangian_c l f v dt = Inr x"
    and "\<exists>x. diffuse_st l u a k = Inr x"
    and "\<exists>x. diffuse_c l f a k = Inr x"
    and "\<exists>x. buoyancy_at l d gs bf dt v = Inr x"
    and "\<exists>x. effect_applied_c l e f dt = Inr x"
    and "\<exists>x. effect_applied_st l e u dt = Inr x"
    and "\<exists>x. obstacle_grid l obs v = Inr x"
    and "\<exists>x. ones_active l dm = Inr x"
    and "\<exists>x. accessible l f dm = Inr x"
    and "\<exists>x. at_staggered l f v = Inr x"
    and "\<exists>x. divergence l v = Inr x"
    and "\<exists>x y. solve_pressure l f fd s = Inr (x, y)"
    and "\<exists>x. dx0 l v = Inr x"
    and "\<exists>x. gradient l f = Inr x"
    and "\<exists>x. with_hard_boundary_conditions l fd v = Inr x"
  using assms by (simp_all add: lib_total_def returns_iff)

lemma effects_c_returns:
  "lib_total l \<Longrightarrow> \<exists>d'. effects_c l es d dt = Inr d'"
proof (induction es arbitrary: d)
  case Nil
  then show ?case by simp
next
  case (Cons e es)
  from lib_totalD(7)[OF Cons.prems] obtain d1 where "effect_applied_c l e d dt = Inr d1" by blast
  with Cons.IH[OF Cons.prems, of d1] show ?case by simp
qed

lemma effects_st_returns:
  "lib_total l \<Longrightarrow> lib_keeps_shape l \<Longrightarrow> \<exists>w. effects_st l es v dt = Inr w \<and> same_shape v w"
proof (induction es arbitrary: v)
  case Nil
  then show ?case by (simp add: same_shape_refl)
next
  case (Cons e es)
  from lib_totalD(8)[OF Cons.prems(1)] obtain v1 where v1: "effect_applied_st l e v dt = Inr v1"
    by blast
  with Cons.prems have s1: "same_shape v v1" by (simp add: lib_keeps_shape_def)
  from Cons.IH[OF Cons.prems, of v1] obtain w where "effects_st l es v1 dt = Inr w" "same_shape v1 w"
    by blast
  with v1 s1 show ?case by (auto intro: same_shape_trans)
qed

lemma divergence_free_returns:
  assumes tot: "lib_total l"
  shows "\<exists>v1 pc it dv. divergence_free l v d dm obs ps =
           Inr (v1, [(''pressure_c'', InfoGrid pc), (''iterations'', InfoInt it), (''divergence'', InfoGrid dv)])
         \<and> same_shape v v1"
proof -
  from lib_totalD(9)[OF tot] obtain om where om: "obstacle_grid l obs v = Inr om" by blast
  have "\<exists>am. (case om of Some og \<Rightarrow> Inr (one_minus og) | None \<Rightarrow> ones_active l dm) = Inr am"
    using lib_totalD(10)[OF tot] by (cases om) auto
  then obtain am where am: "(case om of Some og \<Rightarrow> Inr (one_minus og) | None \<Rightarrow> ones_active l dm) = Inr am" ..
  from lib_totalD(11)[OF tot] obtain ac where ac: "accessible l am dm = Inr ac" by blast
  from lib_totalD(12)[OF tot] obtain da where da: "at_staggered l d v = Inr da" by blast
  from lib_totalD(13)[OF tot] obtain dv where dv: "divergence l (st_mul v da) = Inr dv" by blast
  from lib_totalD(14)[OF tot] obtain pc0 it
    where sp: "solve_pressure l dv \<lparr>fd_domain = dm, fd_active = am, fd_accessible = ac\<rparr> ps = Inr (pc0, it)"
    by blast
  from lib_totalD(15)[OF tot] obtain dx where dx: "dx0 l v = Inr dx" by blast
  from lib_totalD(16)[OF tot] obtain gp where gp: "gradient l (g_scale pc0 dx) = Inr gp" by blast
  from lib_totalD(17)[OF tot] obtain co
    where co: "with_hard_boundary_conditions l \<lparr>fd_domain = dm, fd_active = am, fd_accessible = ac\<rparr> (st_div gp da) = Inr co"
    by blast
  have "same_shape v (st_sub v co)"
    by (simp add: same_shape_def st_sub_def arr_sub_def)
  then show ?thesis
    unfolding divergence_free_def Let_def
    by (simp add: om am ac da dv sp dx gp co)
qed

lemma step_projection_returns:
  assumes tot: "lib_total l" and ks: "lib_keeps_shape l"
    and sr: "shape3 rd_array = (L, R, K)" "20 < L" "0 < R" "0 < K"
  shows "\<exists>rd_yk d2 v5 pc it dv. step_projection l self fluid rd_array dt obs g de ve =
           Inr (rd_yk, d2, v5, [(''pressure_c'', InfoGrid pc), (''iterations'', InfoInt it), (''divergence'', InfoGrid dv)])
         \<and> same_shape (velocity fluid) v5"
proof -
  from lib_totalD(1)[OF tot] obtain gt where gt: "gravity_tensor l g (length (domain fluid)) = Inr gt"
    by blast
  have l20: "layer20 rd_array = Inr \<lparr>shape2 = (R, K), cell2 = (\<lambda>i j. cell3 rd_array 20 i j)\<rparr>"
    using sr by (simp add: layer20_def)
  from normalize_returns[of "\<lparr>shape2 = (R, K), cell2 = (\<lambda>i j. cell3 rd_array 20 i j)\<rparr>" R K] sr
  obtain n where n: "normalize \<lparr>shape2 = (R, K), cell2 = (\<lambda>i j. cell3 rd_array 20 i j)\<rparr> = Inr n"
    by auto
  from lib_totalD(2)[OF tot] obtain v1 where v1: "semi_lagrangian_st l (velocity fluid) (velocity fluid) dt = Inr v1"
    by blast
  from lib_totalD(4)[OF tot] obtain v2 where v2: "diffuse_st l v1 (fmul (Fin 0.1) dt) 1 = Inr v2"
    by blast
  from lib_totalD(6)[OF tot] obtain fo
    where fo: "buoyancy_at l (state_equation (pressure fluid) (temperature fluid) (Yf fluid) (Yo fluid))
                 gt (buoyancy_factor fluid) dt v2 = Inr fo"
    by blast
  from effects_c_returns[OF tot] obtain d2
    where d2: "effects_c l de (state_equation (pressure fluid) (temperature fluid) (Yf fluid) (Yo fluid)) dt = Inr d2"
    by blast
  from effects_st_returns[OF tot ks] obtain v4
    where v4: "effects_st l ve (st_add v2 fo) dt = Inr v4" "same_shape (st_add v2 fo) v4"
    by blast
  from divergence_free_returns[OF tot] obtain v5 pc it dv
    where v5: "divergence_free l v4 d2 (domain fluid) obs (pressure_solver self) =
       Inr (v5, [(''pressure_c'', InfoGrid pc), (''iterations'', InfoInt it), (''divergence'', InfoGrid dv)])"
       "same_shape v4 v5"
    by blast
  have "same_shape (velocity fluid) v1" using ks v1 by (simp add: lib_keeps_shape_def)
  moreover have "same_shape v1 v2" using ks v2 by (simp add: lib_keeps_shape_def)
  moreover have "same_shape v2 (st_add v2 fo)" by (simp add: same_shape_def st_add_def arr_add_def)
  ultimately have "same_shape (velocity fluid) v5"
    using v4(2) v5(2) by (simp add: same_shape_def)
  moreover have "step_projection l self fluid rd_array dt obs g de ve =
      Inr (n, d2, v5, [(''pressure_c'', InfoGrid pc), (''iterations'', InfoInt it), (''divergence'', InfoGrid dv)])"
    unfolding step_projection_def Let_def
    by (simp only: gt l20 n v1 v2 fo d2 v4 v5 bind_r_simps prod.case)
  ultimately show ?thesis by blast
qed

lemma VelocityBoundary_y_returns:
  assumes "shape4 (vy v) = (B, H, W, C)" "0 < B" "0 < C"
    and "shape3 rd_array = (L, R, K)" "0 < L" "0 < R" "0 < K"
    and "bc_dim (slice_len R 0 res) (slice_len W 0 res)"
  shows "\<exists>r. VelocityBoundary_y v rd_array res rd_yk eqr = Inr r"
  using assms by (simp add: VelocityBoundary_y_def Let_def bc_dim_def)

lemma velocity_bc_returns:
  assumes "shape4 (vy v) = (B, H, W, C)" "0 < B" "0 < C"
    and "shape4 (vx v) = (B', H', W', C')" "0 < C'"
    and "shape3 rd_array = (L, R, K)" "0 < L" "0 < R" "0 < K"
    and "bc_dim (slice_len R 0 res) (slice_len W 0 res)"
  shows "\<exists>w. velocity_bc v rd_array res rd_yk eqr = Inr w"
proof -
  from VelocityBoundary_y_returns[OF assms(1-3) assms(6-10)] obtain a m
    where "VelocityBoundary_y v rd_array res rd_yk eqr = Inr (a, m)" by (metis surj_pair)
  moreover have "\<exists>r. VelocityBoundary_x v = Inr r"
    using assms(4,5) by (simp add: VelocityBoundary_x_def Let_def)
  ultimately show ?thesis
    by (auto simp: velocity_bc_def Let_def)
qed

lemma step_transport_returns:
  assumes tot: "lib_total l"
    and vb: "velocity_bc v5 rd_array res rd_yk (eq fluid) = Inr v6"
    and si: "map_of (solve_info fluid) ''pressure_c'' = Some (InfoGrid pc)"
  shows "\<exists>out. step_transport l fluid rd_array res dt rd_yk d2 v5 = Inr out"
proof -
  from lib_totalD(3)[OF tot] obtain t1 where t1: "semi_lagrangian_c l (temperature fluid) v6 dt = Inr t1" by blast
  from lib_totalD(5)[OF tot] obtain t2 where t2: "diffuse_c l t1 (fmul dt (Fin 0.1)) 1 = Inr t2" by blast
  from lib_totalD(3)[OF tot] obtain f1 where f1: "semi_lagrangian_c l (Yf fluid) v6 dt = Inr f1" by blast
  from lib_totalD(5)[OF tot] obtain f2 where f2: "diffuse_c l f1 (fmul (Fin 0.1) dt) 1 = Inr f2" by blast
  from lib_totalD(3)[OF tot] obtain o1 where o1: "semi_lagrangian_c l (Yo fluid) v6 dt = Inr o1" by blast
  from lib_totalD(5)[OF tot] obtain o2 where o2: "diffuse_c l o1 (fmul (Fin 0.1) dt) 1 = Inr o2" by blast
  obtain z1 z2 z3 z4 where mm: "get_min_max_zf_zo (eq fluid) = (z1, z2, z3, z4)"
    by (metis prod_cases4)
  show ?thesis
    unfolding step_transport_def Let_def
    by (simp only: mm vb si t1 t2 f1 f2 o1 o2 bind_r_simps prod.case option.case info.case) blast
qed

lemma step_returns:
  assumes tot: "lib_total l" and ks: "lib_keeps_shape l"
    and sy: "shape4 (vy (velocity fluid)) = (B, H, W, C)" "0 < B" "0 < C"
    and sx: "shape4 (vx (velocity fluid)) = (B', H', W', C')" "0 < C'"
    and sr: "shape3 rd_array = (L, R, K)" "20 < L" "0 < R" "0 < K"
    and bc: "bc_dim (slice_len R 0 res) (slice_len W 0 res)"
  shows "returns (snd (step l self fluid rd_array res dt obs g de ve))"
proof -
  from step_projection_returns[OF tot ks sr] obtain rd_yk d2 v5 pc it dv
    where sp: "step_projection l self fluid rd_array dt obs g de ve =
           Inr (rd_yk, d2, v5, [(''pressure_c'', InfoGrid pc), (''iterations'', InfoInt it), (''divergence'', InfoGrid dv)])"
      and sh: "same_shape (velocity fluid) v5"
    by blast
  let ?si = "[(''pressure_c'', InfoGrid pc), (''iterations'', InfoInt it), (''divergence'', InfoGrid dv)]"
  let ?f1 = "fluid\<lparr>solve_info := ?si\<rparr>"
  have y5: "shape4 (vy v5) = (B, H, W, C)" and x5: "shape4 (vx v5) = (B', H', W', C')"
    using sh sy sx by (simp_all add: same_shape_def)
  from sr have L0: "0 < L" by simp
  from velocity_bc_returns[OF y5 sy(2,3) x5 sx(2) sr(1) L0 sr(3,4) bc]
  obtain v6 where v6: "velocity_bc v5 rd_array res rd_yk (eq ?f1) = Inr v6" by blast
  have "map_of (solve_info ?f1) ''pressure_c'' = Some (InfoGrid pc)" by simp
  from step_transport_returns[OF tot v6 this]
  obtain out where "step_transport l ?f1 rd_array res dt rd_yk d2 v5 = Inr out" by blast
  then show ?thesis
    by (simp add: step_def sp Let_def returns_def)
qed

subsection \<open>Arithmetic on cells\<close>

lemma fmul_zero_finite: "is_finite x \<Longrightarrow> is_zero (fmul x (Fin 0))"
  by (cases x) (simp_all add: fmul_def zero_of_def)

lemma fmul_zero_nonfinite: "\<not> is_finite x \<Longrightarrow> fmul x (Fin 0) = NaN"
  by (cases x) (simp_all add: fmul_def)

lemma fadd_zero_left: "is_zero z \<Longrightarrow> fadd z (Fin r) = Fin r"
  by (cases z) simp_all

lemma fmul_one: "fmul x (Fin 1) = x"
  by (cases x) (simp_all add: fmul_def zero_of_def inf_of_def)

lemma fadd_pzero: "fadd x (Fin 0) = (if x = NZero then Fin 0 else x)"
  by (cases x) simp_all

lemma masked_cell: "fadd (fmul x (Fin 0)) (Fin r) = (if is_finite x then Fin r else NaN)"
  by (cases x) (simp_all add: fmul_def zero_of_def)

subsection \<open>Slices\<close>

lemma in_slice_0_1: "in_slice H 0 1 i \<longleftrightarrow> i = 0 \<and> 0 < H"
  by (auto simp: in_slice_def slice_bound_def)

lemma in_slice_top: "2 \<le> res \<Longrightarrow> in_slice H (res - 1) res i \<longleftrightarrow> int i = res - 1 \<and> i < H"
  by (auto simp: in_slice_def slice_bound_def)

subsection \<open>Cells after the boundary updates\<close>

lemma species_bc_cell:
  "cell4 (gdata (species_bc z Y)) b i j c =
     (if i = 0 \<and> 0 < fst (snd (shape4 (gdata Y)))
      then fadd (fmul (cell4 (gdata Y) b i j c) (Fin 0)) (Fin z)
      else fadd (fmul (cell4 (gdata Y) b i j c) (Fin 1)) (Fin 0))"
  by (cases "shape4 (gdata Y)")
     (simp add: species_bc_def Let_def arr_add_def arr_mul_def assign_def np_ones_def np_zeros_def in_slice_0_1)

lemma species_bc_shape: "shape4 (gdata (species_bc z Y)) = shape4 (gdata Y)"
  by (cases "shape4 (gdata Y)")
     (simp add: species_bc_def Let_def arr_add_def arr_mul_def assign_def np_ones_def np_zeros_def)

lemma species_bc_box: "gbox (species_bc z Y) = gbox Y"
  by (cases "shape4 (gdata Y)") (simp add: species_bc_def Let_def)

lemma temperature_bc_cell:
  "cell4 (gdata (temperature_bc res T)) b i j c =
     (if in_slice (fst (snd (shape4 (gdata T)))) (res - 1) res i
      then fadd (fmul (cell4 (gdata T) b i j c) (Fin 0)) (Fin 2000)
      else if i = 0 \<and> 0 < fst (snd (shape4 (gdata T)))
        then fadd (fmul (cell4 (gdata T) b i j c) (Fin 0)) (Fin 800)
      else fadd (fmul (cell4 (gdata T) b i j c) (Fin 1)) (Fin 0))"
  by (cases "shape4 (gdata T)")
     (simp add: temperature_bc_def Let_def arr_add_def arr_mul_def assign_def np_ones_def np_zeros_def in_slice_0_1)

lemma temperature_bc_shape: "shape4 (gdata (temperature_bc res T)) = shape4 (gdata T)"
  by (cases "shape4 (gdata T)")
     (simp add: temperature_bc_def Let_def arr_add_def arr_mul_def assign_def np_ones_def np_zeros_def)

lemma temperature_bc_box: "gbox (temperature_bc res T) = gbox T"
  by (cases "shape4 (gdata T)") (simp add: temperature_bc_def Let_def)

subsection \<open>What a returning step is made of\<close>

lemma step_Inr:
  assumes "step l self fluid rd_array res dt obstacles g de ve = (fluid1, Inr out)"
  shows "\<exists>rd_yk d2 v5 si. step_projection l self fluid rd_array dt obstacles g de ve = Inr (rd_yk, d2, v5, si)
           \<and> fluid1 = fluid\<lparr>solve_info := si\<rparr>
           \<and> step_transport l fluid1 rd_array res dt rd_yk d2 v5 = Inr out"
  using assms unfolding step_def
  by (auto simp: Let_def split: sum.splits prod.splits)

lemma step_projection_density:
  assumes "step_projection l self fluid rd_array dt obstacles g [] ve = Inr (rd_yk, d2, v5, si)"
  shows "d2 = state_equation (pressure fluid) (temperature fluid) (Yf fluid) (Yo fluid)"
  using assms unfolding step_projection_def Let_def
  by (auto dest!: bind_r_Inr split: prod.splits)

lemma step_transport_fields:
  assumes "step_transport l fluid rd_array res dt rd_yk d2 v5 = Inr out"
      and "get_min_max_zf_zo (eq fluid) = (Zf_min, Zf_max, Zo_min, Zo_max)"
  shows "\<exists>T3 Y3 Y3o. temperature out = temperature_bc res T3 \<and> Yf out = species_bc Zf_max Y3
          \<and> Yo out = species_bc Zo_min Y3o \<and> density out = d2
          \<and> velocity_bc v5 rd_array res rd_yk (eq fluid) = Inr (velocity out)"
  using assms unfolding step_transport_def Let_def
  by (auto dest!: bind_r_Inr split: prod.splits)

lemma step_fields:
  assumes "step l self fluid rd_array res dt obstacles g de ve = (fluid1, Inr out)"
      and "get_min_max_zf_zo (eq fluid) = (Zf_min, Zf_max, Zo_min, Zo_max)"
  shows "\<exists>T3 Y3 Y3o v5 rd_yk. temperature out = temperature_bc res T3 \<and> Yf out = species_bc Zf_max Y3
          \<and> Yo out = species_bc Zo_min Y3o
          \<and> velocity_bc v5 rd_array res rd_yk (eq fluid) = Inr (velocity out)"
proof -
  from step_Inr[OF assms(1)] obtain rd_yk d2 v5 si
    where f1: "fluid1 = fluid\<lparr>solve_info := si\<rparr>"
      and tr: "step_transport l fluid1 rd_array res dt rd_yk d2 v5 = Inr out"
    by blast
  from f1 assms(2) have "get_min_max_zf_zo (eq fluid1) = (Zf_min, Zf_max, Zo_min, Zo_max)" by simp
  from step_transport_fields[OF tr this] f1 show ?thesis by auto
qed

subsection \<open>The example inputs\<close>

lemma lib0_total: "lib_total lib0"
  by (simp add: lib_total_def lib0_def returns_def)

lemma lib0_keeps_shape: "lib_keeps_shape lib0"
  by (simp add: lib_keeps_shape_def lib0_def same_shape_def)

lemma example_step_returns:
  assumes "shape4 (vy (velocity fluid)) = (1, 3, 2, 1)" "shape4 (vx (velocity fluid)) = (1, 2, 3, 1)"
    and "shape3 rd_array = (21, 2, 2)"
  shows "returns (snd (step lib0 self0 fluid rd_array 2 dt [] g0 [] []))"
  using step_returns[OF lib0_total lib0_keeps_shape assms(1) _ _ assms(2) _ assms(3)]
  by (simp add: bc_dim_def slice_len_def slice_bound_def)

lemma step0_returns: "returns (snd (step0 p (rd0 v)))"
  unfolding step0_def
  by (rule example_step_returns) (simp_all add: fluid0_def const_staggered_def const_arr_def rd0_def)

lemma returns_pair: "returns (snd S) \<Longrightarrow> S = (fst S, Inr (projr (snd S)))"
  by (metis returns_projr prod.collapse)

subsection \<open>What a step leaves unchanged\<close>

lemma step_transport_frame:
  assumes "step_transport l fluid rd_array res dt rd_yk d2 v5 = Inr out"
  shows "domain out = domain fluid \<and> rd out = rd fluid \<and> Wt out = Wt fluid \<and> Wkf out = Wkf fluid
         \<and> Wko out = Wko fluid \<and> buoyancy_factor out = buoyancy_factor fluid \<and> amp out = amp fluid
         \<and> eq out = eq fluid \<and> solve_info out = solve_info fluid \<and> age out = fadd (age fluid) dt"
  using assms unfolding step_transport_def Let_def
  by (auto dest!: bind_r_Inr split: prod.splits)

lemma step_solve_info:
  assumes "lib_total l" "lib_keeps_shape l" "shape3 rd_array = (L, R, K)" "20 < L" "0 < R" "0 < K"
  shows "\<exists>pc it dv. solve_info (fst (step l self fluid rd_array res dt obs g de ve)) =
           [(''pressure_c'', InfoGrid pc), (''iterations'', InfoInt it), (''divergence'', InfoGrid dv)]"
proof -
  from step_projection_returns[OF assms] obtain rd_yk d2 v5 pc it dv
    where "step_projection l self fluid rd_array dt obs g de ve =
           Inr (rd_yk, d2, v5, [(''pressure_c'', InfoGrid pc), (''iterations'', InfoInt it), (''divergence'', InfoGrid dv)])"
    by blast
  then show ?thesis by (simp add: step_def Let_def)
qed

lemma step_age:
  assumes "step l self fluid rd_array res dt obstacles g de ve = (fluid1, Inr out)"
  shows "age out = fadd (age fluid) dt"
proof -
  from step_Inr[OF assms] obtain rd_yk d2 v5 si
    where f1: "fluid1 = fluid\<lparr>solve_info := si\<rparr>"
      and tr: "step_transport l fluid1 rd_array res dt rd_yk d2 v5 = Inr out"
    by blast
  from step_transport_frame[OF tr] f1 show ?thesis by simp
qed

subsection \<open>The scalar fields of a returned state\<close>

lemma step_density:
  assumes "step l self fluid rd_array res dt obstacles g [] ve = (fluid1, Inr out)"
  shows "density out = state_equation (pressure fluid) (temperature fluid) (Yf fluid) (Yo fluid)"
proof -
  from step_Inr[OF assms] obtain rd_yk d2 v5 si
    where pr: "step_projection l self fluid rd_array dt obstacles g [] ve = Inr (rd_yk, d2, v5, si)"
      and tr: "step_transport l fluid1 rd_array res dt rd_yk d2 v5 = Inr out"
    by blast
  obtain z1 z2 z3 z4 where "get_min_max_zf_zo (eq fluid1) = (z1, z2, z3, z4)"
    by (metis prod_cases4)
  from step_transport_fields[OF tr this] have "density out = d2" by blast
  with step_projection_density[OF pr] show ?thesis by simp
qed

lemma step_transport_scalars:
  assumes "step_transport l fluid rd_array res dt rd_yk d2 v5 = Inr out"
      and "get_min_max_zf_zo (eq fluid) = (Zf_min, Zf_max, Zo_min, Zo_max)"
  shows "\<exists>T1 T2 Y1 Y2 O1 O2.
           velocity_bc v5 rd_array res rd_yk (eq fluid) = Inr (velocity out)
         \<and> semi_lagrangian_c l (temperature fluid) (velocity out) dt = Inr T1
         \<and> diffuse_c l T1 (fmul dt (Fin 0.1)) 1 = Inr T2
         \<and> semi_lagrangian_c l (Yf fluid) (velocity out) dt = Inr Y1
         \<and> diffuse_c l Y1 (fmul (Fin 0.1) dt) 1 = Inr Y2
         \<and> semi_lagrangian_c l (Yo fluid) (velocity out) dt = Inr O1
         \<and> diffuse_c l O1 (fmul (Fin 0.1) dt) 1 = Inr O2
         \<and> temperature out = temperature_bc res (sub_heat T2 (Wt fluid) dt (density out))
         \<and> Yf out = species_bc Zf_max (add_source Y2 (Wkf fluid) dt (density out))
         \<and> Yo out = species_bc Zo_min (add_source O2 (Wko fluid) dt (density out))"
  using assms unfolding step_transport_def Let_def
  by (auto dest!: bind_r_Inr split: prod.splits)

lemma step_scalars:
  assumes "step l self fluid rd_array res dt obstacles g de ve = (fluid1, Inr out)"
      and "get_min_max_zf_zo (eq fluid) = (Zf_min, Zf_max, Zo_min, Zo_max)"
  shows "\<exists>v5 rd_yk T1 T2 Y1 Y2 O1 O2.
           velocity_bc v5 rd_array res rd_yk (eq fluid) = Inr (velocity out)
         \<and> semi_lagrangian_c l (temperature fluid) (velocity out) dt = Inr T1
         \<and> diffuse_c l T1 (fmul dt (Fin 0.1)) 1 = Inr T2
         \<and> semi_lagrangian_c l (Yf fluid) (velocity out) dt = Inr Y1
         \<and> diffuse_c l Y1 (fmul (Fin 0.1) dt) 1 = Inr Y2
         \<and> semi_lagrangian_c l (Yo fluid) (velocity out) dt = Inr O1
         \<and> diffuse_c l O1 (fmul (Fin 0.1) dt) 1 = Inr O2
         \<and> temperature out = temperature_bc res (sub_heat T2 (Wt fluid) dt (density out))
         \<and> Yf out = species_bc Zf_max (add_source Y2 (Wkf fluid) dt (density out))
         \<and> Yo out = species_bc Zo_min (add_source O2 (Wko fluid) dt (density out))"
proof -
  from step_Inr[OF assms(1)] obtain rd_yk d2 v5 si
    where f1: "fluid1 = fluid\<lparr>solve_info := si\<rparr>"
      and tr: "step_transport l fluid1 rd_array res dt rd_yk d2 v5 = Inr out"
    by blast
  from f1 assms(2) have "get_min_max_zf_zo (eq fluid1) = (Zf_min, Zf_max, Zo_min, Zo_max)" by simp
  from step_transport_scalars[OF tr this] f1 show ?thesis by simp blast
qed

lemma species_bc_bottom:
  assumes "in_shape4 (gdata (species_bc z Y)) b 0 j c"
  shows "cell4 (gdata (species_bc z Y)) b 0 j c = (if is_finite (cell4 (gdata Y) b 0 j c) then Fin z else NaN)"
proof -
  from assms have "0 < fst (snd (shape4 (gdata Y)))"
    by (cases "shape4 (gdata Y)") (simp add: in_shape4_def species_bc_shape)
  then show ?thesis by (simp only: species_bc_cell masked_cell) simp
qed

lemma step0_scalars:
  assumes "returns (snd (step0 p rd_array))"
  shows "Yf (projr (snd (step0 p rd_array))) = species_bc (25 / 454)
           (add_source (const_grid (Fin 1)) (const_grid (Fin 0)) (Fin 0.01)
              (state_equation (const_grid p) (const_grid (Fin 800)) (const_grid (Fin 1)) (const_grid (Fin 0))))"
    and "Yo (projr (snd (step0 p rd_array))) = species_bc (429 / 454)
           (add_source (const_grid (Fin 0)) (const_grid (Fin 0)) (Fin 0.01)
              (state_equation (const_grid p) (const_grid (Fin 800)) (const_grid (Fin 1)) (const_grid (Fin 0))))"
    and "temperature (projr (snd (step0 p rd_array))) = temperature_bc 2
           (sub_heat (const_grid (Fin 800)) (const_grid (Fin 0)) (Fin 0.01)
              (state_equation (const_grid p) (const_grid (Fin 800)) (const_grid (Fin 1)) (const_grid (Fin 0))))"
proof -
  let ?S = "step0 p rd_array"
  note e = returns_pair[OF assms, unfolded step0_def]
  have mm: "get_min_max_zf_zo (eq (fluid0 p)) = (20 / 449, 25 / 454, 429 / 454, 429 / 449)"
    by (simp add: get_min_max_zf_zo_def Let_def)
  have d: "density (projr (snd ?S)) =
      state_equation (const_grid p) (const_grid (Fin 800)) (const_grid (Fin 1)) (const_grid (Fin 0))"
    using step_density[OF e] by (simp add: step0_def fluid0_def)
  from step_scalars[OF e mm] d
  show "Yf (projr (snd ?S)) = species_bc (25 / 454)
           (add_source (const_grid (Fin 1)) (const_grid (Fin 0)) (Fin 0.01)
              (state_equation (const_grid p) (const_grid (Fin 800)) (const_grid (Fin 1)) (const_grid (Fin 0))))"
    and "Yo (projr (snd ?S)) = species_bc (429 / 454)
           (add_source (const_grid (Fin 0)) (const_grid (Fin 0)) (Fin 0.01)
              (state_equation (const_grid p) (const_grid (Fin 800)) (const_grid (Fin 1)) (const_grid (Fin 0))))"
    and "temperature (projr (snd ?S)) = temperature_bc 2
           (sub_heat (const_grid (Fin 800)) (const_grid (Fin 0)) (Fin 0.01)
              (state_equation (const_grid p) (const_grid (Fin 800)) (const_grid (Fin 1)) (const_grid (Fin 0))))"
    by (auto simp: step0_def fluid0_def lib0_def)
qed

lemmas cell_eval = species_bc_cell temperature_bc_cell add_source_def sub_heat_def state_equation_def
  state_equation_cell_def g_add_def g_sub_def g_mul_def g_scale_def g_pow_m1_def arr_add_def arr_sub_def
  arr_mul_def arr_scale_def arr_pow_m1_def const_grid_def const_arr_def fmul_def fdiv_def fsub_def
  fpow_m1_def zero_of_def inf_of_def Wf_def Wo_def Wp_def cp_def in_slice_def slice_bound_def

lemma step0_cells_zero_pressure:
  "cell4 (gdata (Yf (projr (snd (step0 (Fin 0) (rd0 (Fin 5))))))) 0 0 0 0 = NaN"
  "cell4 (gdata (Yo (projr (snd (step0 (Fin 0) (rd0 (Fin 5))))))) 0 0 0 0 = NaN"
  "cell4 (gdata (temperature (projr (snd (step0 (Fin 0) (rd0 (Fin 5))))))) 0 0 0 0 = NaN"
  "cell4 (gdata (temperature (projr (snd (step0 (Fin 0) (rd0 (Fin 5))))))) 0 1 0 0 = NaN"
  by (simp_all add: step0_scalars[OF step0_returns] cell_eval)

lemma step0_cells:
  "cell4 (gdata (Yf (projr (snd (step0 (Fin 101325) (rd0 (Fin 5))))))) 0 0 0 0 = Fin (25 / 454)"
  "cell4 (gdata (Yo (projr (snd (step0 (Fin 101325) (rd0 (Fin 5))))))) 0 0 0 0 = Fin (429 / 454)"
  "cell4 (gdata (temperature (projr (snd (step0 (Fin 101325) (rd0 (Fin 5))))))) 0 0 0 0 = Fin 800"
  "cell4 (gdata (temperature (projr (snd (step0 (Fin 101325) (rd0 (Fin 5))))))) 0 1 0 0 = Fin 2000"
  by (simp_all add: step0_scalars[OF step0_returns] cell_eval)

lemma step0_shapes:
  "shape4 (gdata (Yf (projr (snd (step0 p (rd0 v)))))) = (1, 2, 2, 1)"
  "shape4 (gdata (Yo (projr (snd (step0 p (rd0 v)))))) = (1, 2, 2, 1)"
  "shape4 (gdata (temperature (projr (snd (step0 p (rd0 v)))))) = (1, 2, 2, 1)"
  by (simp_all add: step0_scalars[OF step0_returns] species_bc_shape temperature_bc_shape
      add_source_def sub_heat_def g_add_def g_sub_def arr_add_def arr_sub_def const_grid_def const_arr_def)

subsection \<open>The velocity boundary and the temperature rows\<close>

lemma VelocityBoundary_x_Inr:
  assumes "VelocityBoundary_x v = Inr (bcx, mx)"
  shows "mx = bcx" and "shape4 mx = shape4 (vx v)"
    and "cell4 mx b i j c = (if i = 0 \<and> 0 < fst (snd (shape4 (vx v))) \<and> c = 0 then Fin 0 else Fin 1)"
  using assms
  by (cases "shape4 (vx v)";
      auto simp: VelocityBoundary_x_def Let_def assign_def np_ones_def in_slice_0_1 split: if_splits)+

lemma VelocityBoundary_y_Inr:
  assumes "VelocityBoundary_y v rd_array res rd_yk eqr = Inr (bcy, my)"
    and "shape4 (vy v) = (B, H, W, C)" and "shape3 rd_array = (L, R, K)"
  shows "shape4 bcy = (B, H, W, C)" and "shape4 my = (B, H, W, C)"
    and "cell4 my b i j c =
      (if c = 0 \<and> (i = 0 \<and> 0 < H \<or> in_slice_from H (int_quarter res) i \<and>
                      (j = 0 \<and> 0 < W \<or> in_slice_from W (res - 1) j))
       then Fin 0 else Fin 1)"
    and "cell4 bcy b i j c =
      (if b = 0 \<and> i = 0 \<and> 0 < H \<and> c = 0 \<and> in_slice W res (res + 1) j
         then inflow (cell3 rd_array 0 (R - 1) 0)
       else if b = 0 \<and> i = 0 \<and> 0 < H \<and> c = 0 \<and> in_slice W 0 res j
         then inflow (cell3 rd_array 0 (if slice_len R 0 res = 1 then 0 else j) 0)
       else Fin 0)"
  using assms
  by (auto simp: VelocityBoundary_y_def Let_def assign_def np_ones_def np_zeros_def in_slice_0_1
      split: if_splits)

lemma VelocityBoundary_y_independent:
  "VelocityBoundary_y v rd_array res rd_yk eqr = VelocityBoundary_y v rd_array res rd_yk' eqr'"
  by (simp add: VelocityBoundary_y_def)

lemma velocity_bc_Inr:
  assumes "velocity_bc v rd_array res rd_yk eqr = Inr w"
  shows "\<exists>bcy my bcx mx. VelocityBoundary_y v rd_array res rd_yk eqr = Inr (bcy, my)
           \<and> VelocityBoundary_x v = Inr (bcx, mx)
           \<and> vy w = arr_add (arr_mul (vy v) my) bcy \<and> vx w = arr_mul (vx v) mx \<and> sbox w = sbox v"
  using assms unfolding velocity_bc_def Let_def
  by (auto dest!: bind_r_Inr split: prod.splits)

lemma velocity_bc_vx:
  assumes "velocity_bc v rd_array res rd_yk eqr = Inr w"
  shows "shape4 (vx w) = shape4 (vx v)"
    and "cell4 (vx w) b i j c =
      fmul (cell4 (vx v) b i j c) (if i = 0 \<and> 0 < fst (snd (shape4 (vx v))) \<and> c = 0 then Fin 0 else Fin 1)"
proof -
  from velocity_bc_Inr[OF assms] obtain bcx mx
    where x: "VelocityBoundary_x v = Inr (bcx, mx)" and w: "vx w = arr_mul (vx v) mx"
    by blast
  show "shape4 (vx w) = shape4 (vx v)" by (simp add: w arr_mul_def)
  show "cell4 (vx w) b i j c =
      fmul (cell4 (vx v) b i j c) (if i = 0 \<and> 0 < fst (snd (shape4 (vx v))) \<and> c = 0 then Fin 0 else Fin 1)"
    by (simp only: w arr_mul_def VelocityBoundary_x_Inr(3)[OF x]) simp
qed

lemma temperature_bc_bottom:
  assumes "in_shape4 (gdata (temperature_bc res T)) b 0 j c" "2 \<le> res"
  shows "cell4 (gdata (temperature_bc res T)) b 0 j c = (if is_finite (cell4 (gdata T) b 0 j c) then Fin 800 else NaN)"
proof -
  from assms have "0 < fst (snd (shape4 (gdata T)))"
    by (cases "shape4 (gdata T)") (simp add: in_shape4_def temperature_bc_shape)
  moreover have "\<not> in_slice (fst (snd (shape4 (gdata T)))) (res - 1) res 0"
    using assms(2) by (simp add: in_slice_top)
  ultimately show ?thesis by (simp only: temperature_bc_cell masked_cell) simp
qed

lemma temperature_bc_top:
  assumes "in_shape4 (gdata (temperature_bc res T)) b (nat (res - 1)) j c" "2 \<le> res"
  shows "cell4 (gdata (temperature_bc res T)) b (nat (res - 1)) j c =
           (if is_finite (cell4 (gdata T) b (nat (res - 1)) j c) then Fin 2000 else NaN)"
proof -
  from assms have "nat (res - 1) < fst (snd (shape4 (gdata T)))"
    by (cases "shape4 (gdata T)") (simp add: in_shape4_def temperature_bc_shape)
  then have "in_slice (fst (snd (shape4 (gdata T)))) (res - 1) res (nat (res - 1))"
    using assms(2) by (simp add: in_slice_top)
  then show ?thesis by (simp only: temperature_bc_cell masked_cell) simp
qed

lemma step_velocity:
  assumes "step l self fluid rd_array res dt obstacles g de ve = (fluid1, Inr out)"
  shows "\<exists>rd_yk d2 v5 si. step_projection l self fluid rd_array dt obstacles g de ve = Inr (rd_yk, d2, v5, si)
           \<and> velocity_bc v5 rd_array res rd_yk (eq fluid) = Inr (velocity out)"
proof -
  from step_Inr[OF assms] obtain rd_yk d2 v5 si
    where pr: "step_projection l self fluid rd_array dt obstacles g de ve = Inr (rd_yk, d2, v5, si)"
      and f1: "fluid1 = fluid\<lparr>solve_info := si\<rparr>"
      and tr: "step_transport l fluid1 rd_array res dt rd_yk d2 v5 = Inr out"
    by blast
  obtain z1 z2 z3 z4 where "get_min_max_zf_zo (eq fluid1) = (z1, z2, z3, z4)"
    by (metis prod_cases4)
  from step_transport_fields[OF tr this] f1 pr show ?thesis by auto
qed

lemma step0_projection:
  assumes "step_projection lib0 self0 (fluid0 p) rd_array dt [] g0 [] [] = Inr (rd_yk, d2, v5, si)"
  shows "shape4 (vx v5) = (1, 2, 3, 1)" and "shape4 (vy v5) = (1, 3, 2, 1)"
    and "cell4 (vx v5) b i j c = Fin 0" and "cell4 (vy v5) b i j c = Fin 0"
  using assms unfolding step_projection_def Let_def
  by (auto dest!: bind_r_Inr
      simp: lib0_def fluid0_def divergence_free_def Let_def const_staggered_def const_arr_def
        st_sub_def st_add_def st_div_def st_mul_def arr_sub_def arr_add_def arr_div_def arr_mul_def
        fsub_def fdiv_def zero_of_def
      split: prod.splits)

subsection \<open>The inflow written by the y-velocity boundary\<close>

lemma in_slice_0_res: "0 \<le> res \<Longrightarrow> in_slice W 0 res j \<longleftrightarrow> j < W \<and> int j < res"
  by (auto simp: in_slice_def slice_bound_def)

lemma in_slice_res: "0 \<le> res \<Longrightarrow> in_slice W res (res + 1) j \<longleftrightarrow> j = nat res \<and> j < W"
  by (auto simp: in_slice_def slice_bound_def)

lemma slice_len_one: "0 \<le> res \<Longrightarrow> slice_len W 0 res = 1 \<Longrightarrow> j < W \<Longrightarrow> int j < res \<Longrightarrow> j = 0"
  by (auto simp: slice_len_def slice_bound_def min_def split: if_splits)

lemma velocity_bc_vy:
  assumes "velocity_bc v rd_array res rd_yk eqr = Inr w"
    and "shape4 (vy v) = (B, H, W, C)" and "shape3 rd_array = (L, R, K)"
  shows "shape4 (vy w) = (B, H, W, C)"
    and "cell4 (vy w) b i j c =
      fadd (fmul (cell4 (vy v) b i j c)
        (if c = 0 \<and> (i = 0 \<and> 0 < H \<or> in_slice_from H (int_quarter res) i \<and>
                      (j = 0 \<and> 0 < W \<or> in_slice_from W (res - 1) j))
         then Fin 0 else Fin 1))
      (if b = 0 \<and> i = 0 \<and> 0 < H \<and> c = 0 \<and> in_slice W res (res + 1) j
         then inflow (cell3 rd_array 0 (R - 1) 0)
       else if b = 0 \<and> i = 0 \<and> 0 < H \<and> c = 0 \<and> in_slice W 0 res j
         then inflow (cell3 rd_array 0 (if slice_len R 0 res = 1 then 0 else j) 0)
       else Fin 0)"
proof -
  from velocity_bc_Inr[OF assms(1)] obtain bcy my
    where y: "VelocityBoundary_y v rd_array res rd_yk eqr = Inr (bcy, my)"
      and w: "vy w = arr_add (arr_mul (vy v) my) bcy"
    by blast
  show "shape4 (vy w) = (B, H, W, C)" by (simp add: w arr_add_def arr_mul_def assms(2))
  show "cell4 (vy w) b i j c =
      fadd (fmul (cell4 (vy v) b i j c)
        (if c = 0 \<and> (i = 0 \<and> 0 < H \<or> in_slice_from H (int_quarter res) i \<and>
                      (j = 0 \<and> 0 < W \<or> in_slice_from W (res - 1) j))
         then Fin 0 else Fin 1))
      (if b = 0 \<and> i = 0 \<and> 0 < H \<and> c = 0 \<and> in_slice W res (res + 1) j
         then inflow (cell3 rd_array 0 (R - 1) 0)
       else if b = 0 \<and> i = 0 \<and> 0 < H \<and> c = 0 \<and> in_slice W 0 res j
         then inflow (cell3 rd_array 0 (if slice_len R 0 res = 1 then 0 else j) 0)
       else Fin 0)"
    by (simp only: w arr_add_def arr_mul_def VelocityBoundary_y_Inr(3,4)[OF y assms(2,3)]) simp
qed

lemma step0_vy_cell:
  "cell4 (vy (velocity (projr (snd (step0 p (rd0 v)))))) 0 0 0 0 = fadd (Fin 0) (inflow v)"
proof -
  let ?S = "step0 p (rd0 v)"
  note e = returns_pair[OF step0_returns, unfolded step0_def]
  from step_velocity[OF e, folded step0_def] obtain rd_yk d2 v5 si
    where pr: "step_projection lib0 self0 (fluid0 p) (rd0 v) (Fin 0.01) [] g0 [] [] = Inr (rd_yk, d2, v5, si)"
      and vb: "velocity_bc v5 (rd0 v) 2 rd_yk (eq (fluid0 p)) = Inr (velocity (projr (snd ?S)))"
    by blast
  have "shape3 (rd0 v) = (21, 2, 2)" by (simp add: rd0_def)
  from velocity_bc_vy(2)[OF vb step0_projection(2)[OF pr] this, of 0 0 0 0]
  show ?thesis
    by (simp add: step0_projection(4)[OF pr] in_slice_def slice_bound_def slice_len_def rd0_def
        fmul_def zero_of_def)
qed

lemma normalize_rd0:
  "returns (bind_r (layer20 (rd0 v)) normalize)"
  "cell2 (projr (bind_r (layer20 (rd0 v)) normalize)) 0 0 = Fin 0"
  "cell2 (projr (bind_r (layer20 (rd0 v)) normalize)) 0 1 = Fin (1 / 2)"
  "cell2 (projr (bind_r (layer20 (rd0 v)) normalize)) 1 0 = Fin (1 / 2)"
  "cell2 (projr (bind_r (layer20 (rd0 v)) normalize)) 1 1 = Fin 1"
  by (simp_all add: layer20_def rd0_def normalize_def cells2_def upt_rec min2_def max2_def
      returns_def fsub_def fdiv_def zero_of_def)

lemma layer20_rd0: "layer20 (rd0 v) = layer20 (rd0 w)"
  by (simp add: layer20_def rd0_def)

subsection \<open>A boundary update applied to its own result\<close>

lemma arr4_eqI:
  fixes a a' :: arr4
  assumes "shape4 a = shape4 a'" and "\<And>b i j c. cell4 a b i j c = cell4 a' b i j c"
  shows "a = a'"
  using assms by (cases a, cases a') (simp add: fun_eq_iff)

lemma cgrid_eqI:
  fixes g g' :: cgrid
  assumes "gdata g = gdata g'" and "gbox g = gbox g'"
  shows "g = g'"
  using assms by (cases g, cases g') simp

lemma twice_masked:
  "\<not> is_inf v \<Longrightarrow> fadd (fmul (fadd (fmul x (Fin 0)) v) (Fin 0)) v = fadd (fmul x (Fin 0)) v"
  by (cases x; cases v) (auto simp: fmul_def zero_of_def inf_of_def)

lemma twice_unmasked:
  "fadd (fmul (fadd (fmul x (Fin 1)) (Fin 0)) (Fin 1)) (Fin 0) = fadd (fmul x (Fin 1)) (Fin 0)"
  by (cases x) (simp_all add: fmul_def zero_of_def inf_of_def)

lemma twice_mask_zero: "fmul (fmul x (Fin 0)) (Fin 0) = fmul x (Fin 0)"
  by (cases x) (auto simp: fmul_def zero_of_def inf_of_def)

lemma twice_mask_one: "fmul (fmul x (Fin 1)) (Fin 1) = fmul x (Fin 1)"
  by (simp add: fmul_one)

lemma species_bc_twice: "species_bc z (species_bc z Y) = species_bc z Y"
proof (rule cgrid_eqI)
  show "gbox (species_bc z (species_bc z Y)) = gbox (species_bc z Y)"
    by (simp add: species_bc_box)
  show "gdata (species_bc z (species_bc z Y)) = gdata (species_bc z Y)"
  proof (rule arr4_eqI)
    show "shape4 (gdata (species_bc z (species_bc z Y))) = shape4 (gdata (species_bc z Y))"
      by (simp add: species_bc_shape)
    fix b i j c
    show "cell4 (gdata (species_bc z (species_bc z Y))) b i j c = cell4 (gdata (species_bc z Y)) b i j c"
      by (simp add: species_bc_cell[of z "species_bc z Y"] species_bc_shape
          species_bc_cell[of z Y] twice_masked twice_unmasked)
  qed
qed

lemma temperature_bc_twice: "temperature_bc res (temperature_bc res T) = temperature_bc res T"
proof (rule cgrid_eqI)
  show "gbox (temperature_bc res (temperature_bc res T)) = gbox (temperature_bc res T)"
    by (simp add: temperature_bc_box)
  show "gdata (temperature_bc res (temperature_bc res T)) = gdata (temperature_bc res T)"
  proof (rule arr4_eqI)
    show "shape4 (gdata (temperature_bc res (temperature_bc res T))) = shape4 (gdata (temperature_bc res T))"
      by (simp add: temperature_bc_shape)
    fix b i j c
    show "cell4 (gdata (temperature_bc res (temperature_bc res T))) b i j c
        = cell4 (gdata (temperature_bc res T)) b i j c"
      by (simp add: temperature_bc_cell[of res "temperature_bc res T"] temperature_bc_shape
          temperature_bc_cell[of res T] twice_masked twice_unmasked)
  qed
qed

lemma VelocityBoundary_y_shape_only:
  "shape4 (vy w) = shape4 (vy v) \<Longrightarrow>
   VelocityBoundary_y w rd_array res rd_yk eqr = VelocityBoundary_y v rd_array res rd_yk eqr"
  by (simp add: VelocityBoundary_y_def)

lemma VelocityBoundary_x_shape_only:
  "shape4 (vx w) = shape4 (vx v) \<Longrightarrow> VelocityBoundary_x w = VelocityBoundary_x v"
  by (simp add: VelocityBoundary_x_def)

lemma slice_bound_le: "slice_bound n a \<le> n"
  by (auto simp: slice_bound_def)

lemma VelocityBoundary_y_Inr_rows:
  assumes "VelocityBoundary_y v rd_array res rd_yk eqr = Inr (bcy, my)"
    and "shape4 (vy v) = (B, H, W, C)" and "shape3 rd_array = (L, R, K)"
  shows "R - 1 < R" and "in_slice W 0 res j \<Longrightarrow> (if slice_len R 0 res = 1 then 0 else j) < R"
proof -
  from assms have R: "0 < R" and bc: "bc_dim (slice_len R 0 res) (slice_len W 0 res)"
    by (auto simp: VelocityBoundary_y_def Let_def split: if_splits)
  from R show "R - 1 < R" by simp
  assume j: "in_slice W 0 res j"
  show "(if slice_len R 0 res = 1 then 0 else j) < R"
  proof (cases "slice_len R 0 res = 1")
    case True
    with R show ?thesis by simp
  next
    case False
    with bc have "slice_len R 0 res = slice_len W 0 res" by (simp add: bc_dim_def)
    then have "slice_bound R res = slice_bound W res"
      by (simp add: slice_len_def slice_bound_def)
    with j have "j < slice_bound R res" by (simp add: in_slice_def)
    with slice_bound_le[of R res] False show ?thesis by simp
  qed
qed

lemma velocity_bc_twice:
  assumes "velocity_bc v rd_array res rd_yk eqr = Inr w"
  shows "\<exists>w'. velocity_bc w rd_array res rd_yk eqr = Inr w' \<and> vx w' = vx w \<and> sbox w' = sbox w
           \<and> shape4 (vy w') = shape4 (vy w)
           \<and> ((\<forall>j < fst (snd (shape3 rd_array)). \<not> is_inf (inflow (cell3 rd_array 0 j 0)))
                \<longrightarrow> vy w' = vy w)"
proof -
  obtain B H W C where sv: "shape4 (vy v) = (B, H, W, C)" by (cases "shape4 (vy v)") auto
  obtain L R K where sr: "shape3 rd_array = (L, R, K)" by (cases "shape3 rd_array") auto
  from velocity_bc_Inr[OF assms] obtain bcy my bcx mx
    where y: "VelocityBoundary_y v rd_array res rd_yk eqr = Inr (bcy, my)"
      and x: "VelocityBoundary_x v = Inr (bcx, mx)"
      and wy: "vy w = arr_add (arr_mul (vy v) my) bcy" and wx: "vx w = arr_mul (vx v) mx"
      and wb: "sbox w = sbox v"
    by blast
  have shy: "shape4 (vy w) = shape4 (vy v)" by (simp add: wy arr_add_def arr_mul_def)
  have shx: "shape4 (vx w) = shape4 (vx v)" by (simp add: wx arr_mul_def)
  let ?w' = "\<lparr>vy = arr_add (arr_mul (vy w) my) bcy, vx = arr_mul (vx w) mx, sbox = sbox w\<rparr>"
  have r: "velocity_bc w rd_array res rd_yk eqr = Inr ?w'"
    unfolding velocity_bc_def Let_def
    by (simp only: VelocityBoundary_y_shape_only[OF shy] VelocityBoundary_x_shape_only[OF shx] y x
        bind_r_simps prod.case)
  have vxe: "vx ?w' = vx w"
  proof -
    have "arr_mul (vx w) mx = vx w"
    proof (rule arr4_eqI)
      show "shape4 (arr_mul (vx w) mx) = shape4 (vx w)" by (simp add: arr_mul_def)
      fix b i j c
      show "cell4 (arr_mul (vx w) mx) b i j c = cell4 (vx w) b i j c"
        by (simp add: arr_mul_def wx VelocityBoundary_x_Inr(3)[OF x] twice_mask_zero twice_mask_one)
    qed
    then show ?thesis by simp
  qed
  have vye: "vy ?w' = vy w"
    if fin: "\<forall>j < fst (snd (shape3 rd_array)). \<not> is_inf (inflow (cell3 rd_array 0 j 0))"
  proof -
    have "arr_add (arr_mul (vy w) my) bcy = vy w"
    proof (rule arr4_eqI)
      show "shape4 (arr_add (arr_mul (vy w) my) bcy) = shape4 (vy w)"
        by (simp add: arr_add_def arr_mul_def)
      fix b i j c
      have ni: "\<not> is_inf (inflow (cell3 rd_array 0 k 0))" if "k < R" for k
        using fin that by (simp add: sr)
      note rows = VelocityBoundary_y_Inr_rows[OF y sv sr]
      have n1: "\<not> is_inf (inflow (cell3 rd_array 0 (R - 1) 0))" by (rule ni[OF rows(1)])
      have n2: "in_slice W 0 res j \<Longrightarrow>
          \<not> is_inf (inflow (cell3 rd_array 0 (if slice_len R 0 res = 1 then 0 else j) 0))"
        by (rule ni[OF rows(2)])
      show "cell4 (arr_add (arr_mul (vy w) my) bcy) b i j c = cell4 (vy w) b i j c"
        unfolding wy arr_add_def arr_mul_def
        using n1 n2
        by (simp add: VelocityBoundary_y_Inr(3,4)[OF y sv sr] twice_masked twice_unmasked)
    qed
    then show ?thesis by simp
  qed
  have "shape4 (vy ?w') = shape4 (vy w)" by (simp add: arr_add_def arr_mul_def)
  with r vxe vye show ?thesis by (intro exI[of _ ?w']) simp
qed

lemma staggered_eqI:
  fixes s s' :: staggered
  assumes "vy s = vy s'" and "vx s = vx s'" and "sbox s = sbox s'"
  shows "s = s'"
  using assms by (cases s, cases s') simp

lemma velocity_bc_example_returns:
  "returns (velocity_bc (const_staggered x) (rd0 r) 2 rd_yk0 (Fin 1))"
proof -
  have "\<exists>w. velocity_bc (const_staggered x) (rd0 r) 2 rd_yk0 (Fin 1) = Inr w"
    by (rule velocity_bc_returns[where B = 1 and H = 3 and W = 2 and C = 1 and B' = 1 and H' = 2
          and W' = 3 and C' = 1 and L = 21 and R = 2 and K = 2])
       (simp_all add: const_staggered_def const_arr_def rd0_def bc_dim_def)
  then show ?thesis by (simp add: returns_iff)
qed

lemma velocity_bc_example_cell:
  assumes "velocity_bc v (rd0 r) 2 rd_yk0 (Fin 1) = Inr w" and "shape4 (vy v) = (1, 3, 2, 1)"
  shows "cell4 (vy w) 0 0 0 0 = fadd (fmul (cell4 (vy v) 0 0 0 0) (Fin 0)) (inflow r)"
proof -
  have "shape3 (rd0 r) = (21, 2, 2)" by (simp add: rd0_def)
  from velocity_bc_vy(2)[OF assms(1,2) this, of 0 0 0 0]
  show ?thesis
    by (simp add: in_slice_def slice_bound_def slice_len_def rd0_def)
qed

subsection \<open>A constant roughness slice\<close>

lemma min2_self: "min2 v v = v"
  by (cases v) (simp_all add: min2_def)

lemma max2_self: "max2 v v = v"
  by (cases v) (simp_all add: max2_def)

lemma foldl_min2_const: "set xs \<subseteq> {v} \<Longrightarrow> foldl min2 v xs = v"
  by (induction xs) (simp_all add: min2_self)

lemma foldl_max2_const: "set xs \<subseteq> {v} \<Longrightarrow> foldl max2 v xs = v"
  by (induction xs) (simp_all add: max2_self)

lemma fdiv_self_difference: "fdiv (fsub v v) (fsub v v) = NaN"
  by (cases v) (simp_all add: fsub_def fdiv_def)

lemma set_cells2:
  assumes "shape2 a = (R, K)" and "x \<in> set (cells2 a)"
  shows "\<exists>i<R. \<exists>j<K. x = cell2 a i j"
  using assms by (force simp: cells2_def)

lemma normalize_constant:
  assumes sh: "shape2 a = (R, K)" and R: "0 < R" and K: "0 < K"
    and c: "\<forall>i<R. \<forall>j<K. cell2 a i j = v"
  shows "\<exists>n. normalize a = Inr n \<and> shape2 n = (R, K) \<and> (\<forall>i<R. \<forall>j<K. cell2 n i j = NaN)"
proof -
  have "length (cells2 a) \<noteq> 0" using sh R K by (simp add: length_cells2)
  then obtain x xs where xs: "cells2 a = x # xs" by (cases "cells2 a") auto
  have "set (cells2 a) \<subseteq> {v}" using c set_cells2[OF sh] by blast
  with xs have x: "x = v" and s: "set xs \<subseteq> {v}" by auto
  have mn: "np_min (cells2 a) = Inr v" and mx: "np_max (cells2 a) = Inr v"
    by (simp_all add: xs x foldl_min2_const[OF s] foldl_max2_const[OF s])
  have "normalize a = Inr (a\<lparr>cell2 := (\<lambda>i j. fdiv (fsub (cell2 a i j) v) (fsub v v))\<rparr>)"
    by (simp add: normalize_def mn mx)
  moreover have "\<forall>i<R. \<forall>j<K. fdiv (fsub (cell2 a i j) v) (fsub v v) = NaN"
    using c by (simp add: fdiv_self_difference)
  ultimately show ?thesis using sh by simp
qed

lemma normalized_slice_constant:
  assumes "shape3 rd_array = (L, R, K)" "20 < L" "0 < R" "0 < K"
    and "\<forall>i<R. \<forall>j<K. cell3 rd_array 20 i j = v"
  shows "\<exists>n. bind_r (layer20 rd_array) normalize = Inr n \<and> shape2 n = (R, K)
           \<and> (\<forall>i<R. \<forall>j<K. cell2 n i j = NaN)"
proof -
  let ?a = "\<lparr>shape2 = (R, K), cell2 = (\<lambda>i j. cell3 rd_array 20 i j)\<rparr>"
  have l: "layer20 rd_array = Inr ?a" using assms(1,2) by (simp add: layer20_def)
  have "\<exists>n. normalize ?a = Inr n \<and> shape2 n = (R, K) \<and> (\<forall>i<R. \<forall>j<K. cell2 n i j = NaN)"
    by (rule normalize_constant[where v = v]) (use assms in simp_all)
  then show ?thesis by (simp add: l)
qed

lemma normalized_slice_returns:
  assumes "shape3 rd_array = (L, R, K)" "20 < L" "0 < R" "0 < K"
  shows "\<exists>n. bind_r (layer20 rd_array) normalize = Inr n"
proof -
  let ?a = "\<lparr>shape2 = (R, K), cell2 = (\<lambda>i j. cell3 rd_array 20 i j)\<rparr>"
  have l: "layer20 rd_array = Inr ?a" using assms(1,2) by (simp add: layer20_def)
  have "\<exists>n. normalize ?a = Inr n"
    by (rule normalize_returns[where R = R and K = K]) (use assms in simp_all)
  then show ?thesis by (simp add: l)
qed

lemma step_projection_slice:
  assumes "bind_r (layer20 rd_array) normalize = Inr n" "bind_r (layer20 rd') normalize = Inr n'"
  shows "step_projection l self fluid rd' dt obs g de ve =
     (case step_projection l self fluid rd_array dt obs g de ve of
        Inl e \<Rightarrow> Inl e | Inr (m, d2, v5, si) \<Rightarrow> Inr (n', d2, v5, si))"
    and "\<And>m d2 v5 si. step_projection l self fluid rd_array dt obs g de ve = Inr (m, d2, v5, si) \<Longrightarrow> m = n"
proof -
  from assms obtain a a' where a: "layer20 rd_array = Inr a" "normalize a = Inr n"
    and a': "layer20 rd' = Inr a'" "normalize a' = Inr n'"
    by (auto dest!: bind_r_Inr)
  show "step_projection l self fluid rd' dt obs g de ve =
     (case step_projection l self fluid rd_array dt obs g de ve of
        Inl e \<Rightarrow> Inl e | Inr (m, d2, v5, si) \<Rightarrow> Inr (n', d2, v5, si))"
    unfolding step_projection_def Let_def
    by (simp add: a a' bind_r_def split: sum.splits prod.splits)
  show "\<And>m d2 v5 si. step_projection l self fluid rd_array dt obs g de ve = Inr (m, d2, v5, si) \<Longrightarrow> m = n"
    unfolding step_projection_def Let_def
    by (simp add: a bind_r_def split: sum.splits prod.splits)
qed

lemma VelocityBoundary_y_layer0:
  assumes "shape3 rd' = shape3 rd_array" and "\<forall>j. cell3 rd' 0 j 0 = cell3 rd_array 0 j 0"
  shows "VelocityBoundary_y v rd' res rd_yk' eqr = VelocityBoundary_y v rd_array res rd_yk eqr"
  using assms
  by (cases "shape4 (vy v)"; cases "shape3 rd_array") (simp add: VelocityBoundary_y_def Let_def)

lemma velocity_bc_layer0:
  assumes "shape3 rd' = shape3 rd_array" and "\<forall>j. cell3 rd' 0 j 0 = cell3 rd_array 0 j 0"
  shows "velocity_bc v rd' res rd_yk' eqr = velocity_bc v rd_array res rd_yk eqr"
  unfolding velocity_bc_def Let_def
  by (simp only: VelocityBoundary_y_layer0[OF assms, of v res rd_yk' eqr rd_yk])

lemma step_transport_layer0:
  assumes "shape3 rd' = shape3 rd_array" and "\<forall>j. cell3 rd' 0 j 0 = cell3 rd_array 0 j 0"
  shows "step_transport l fluid rd' res dt rd_yk' d2 v5 = step_transport l fluid rd_array res dt rd_yk d2 v5"
  unfolding step_transport_def Let_def
  by (simp only: velocity_bc_layer0[OF assms, of _ res rd_yk' _ rd_yk])

lemma step_slice20:
  assumes "shape3 rd_array = (L, R, K)" "20 < L" "0 < R" "0 < K"
    and "shape3 rd' = (L, R, K)"
    and "\<forall>l i j. l \<noteq> 20 \<longrightarrow> cell3 rd' l i j = cell3 rd_array l i j"
  shows "step l self fluid rd' res dt obs g de ve = step l self fluid rd_array res dt obs g de ve"
proof -
  from normalized_slice_returns[OF assms(1-4)] obtain n
    where n: "bind_r (layer20 rd_array) normalize = Inr n" by blast
  from normalized_slice_returns[OF assms(5) assms(2-4)] obtain n'
    where n': "bind_r (layer20 rd') normalize = Inr n'" by blast
  have s: "shape3 rd' = shape3 rd_array" using assms(1,5) by simp
  have z: "\<forall>j. cell3 rd' 0 j 0 = cell3 rd_array 0 j 0" using assms(6) by simp
  note p = step_projection_slice[OF n n', of l self fluid dt obs g de ve]
  show ?thesis
  proof (cases "step_projection l self fluid rd_array dt obs g de ve")
    case (Inl e)
    then show ?thesis by (simp add: step_def p(1))
  next
    case (Inr r)
    obtain m d2 v5 si where r: "r = (m, d2, v5, si)" by (cases r) auto
    show ?thesis
      by (simp add: step_def p(1) Inr r step_transport_layer0[OF s z, of _ _ res dt n' _ _ m])
  qed
qed

lemma rd_const_facts:
  "shape3 rd_const = (21, 2, 2)"
  "cell3 rd_const 20 0 0 = Fin 5" "cell3 rd_const 20 0 1 = Fin 5"
  "cell3 rd_const 20 1 0 = Fin 5" "cell3 rd_const 20 1 1 = Fin 5"
  by (simp_all add: rd_const_def)

lemma rd_const_normalized:
  "returns (bind_r (layer20 rd_const) normalize)"
  "cell2 (projr (bind_r (layer20 rd_const) normalize)) 0 0 = NaN"
  "cell2 (projr (bind_r (layer20 rd_const) normalize)) 0 1 = NaN"
  "cell2 (projr (bind_r (layer20 rd_const) normalize)) 1 0 = NaN"
  "cell2 (projr (bind_r (layer20 rd_const) normalize)) 1 1 = NaN"
proof -
  have "\<exists>n. bind_r (layer20 rd_const) normalize = Inr n \<and> shape2 n = (2, 2)
           \<and> (\<forall>i<2. \<forall>j<2. cell2 n i j = NaN)"
    by (rule normalized_slice_constant[where L = 21 and v = "Fin 5"]) (simp_all add: rd_const_def)
  then obtain n where n: "bind_r (layer20 rd_const) normalize = Inr n"
    and c: "\<forall>i<2. \<forall>j<2. cell2 n i j = NaN" by blast
  show "returns (bind_r (layer20 rd_const) normalize)" by (simp add: n returns_def)
  show "cell2 (projr (bind_r (layer20 rd_const) normalize)) 0 0 = NaN"
    "cell2 (projr (bind_r (layer20 rd_const) normalize)) 0 1 = NaN"
    "cell2 (projr (bind_r (layer20 rd_const) normalize)) 1 0 = NaN"
    "cell2 (projr (bind_r (layer20 rd_const) normalize)) 1 1 = NaN"
    using c by (simp_all add: n)
qed

section \<open>Properties\<close>

text \<open>
  Claim C4. For every argument \<open>eq\<close>, \<open>get_min_max_zf_zo eq\<close> is the tuple
  \<open>(Zf_min, Zf_max, Zo_min, Zo_max)\<close> with \<open>Zf_min = 1/(1 + 4*4.29/0.8)\<close>,
  \<open>Zf_max = 1/(1 + 4*4.29/1.0)\<close>, \<open>Zo_min = 1 - Zf_max\<close> and \<open>Zo_max = 1 - Zf_min\<close>;
  the result is the same for any two arguments.
\<close>

theorem get_min_max_zf_zo_constant:
  "get_min_max_zf_zo eq1 =
     (1 / (1 + 4 * 4.29 / 0.8), 1 / (1 + 4 * 4.29 / 1.0),
      1 - 1 / (1 + 4 * 4.29 / 1.0), 1 - 1 / (1 + 4 * 4.29 / 0.8))
   \<and> get_min_max_zf_zo eq1 = get_min_max_zf_zo eq2"
  by (simp add: get_min_max_zf_zo_def Let_def)



text \<open>
  Claim C9, as amended. The step validates neither \<open>dt\<close> nor the mass fractions,
  the density or the temperature. For every \<open>dt\<close> (also zero, negative or NaN) and
  every content of the fields it runs the whole transport and projection sequence
  and returns a state, provided that every function of the library returns on every
  argument (\<open>lib_total\<close>); that advection, diffusion and effects return a velocity
  whose two arrays have the shapes of the velocity they were given
  (\<open>lib_keeps_shape\<close>); that the batch axis and the component axis of the
  y-velocity array and the component axis of the x-velocity array are not empty;
  that the roughness array has more than 20 layers, at least one row and at least
  one column; and that the number of roughness rows selected by \<open>0:res\<close> is the
  number of y-velocity columns selected by \<open>0:res\<close>, or is one (the broadcast of
  line 162).
\<close>

theorem step_no_validation:
  assumes "lib_total l" and "lib_keeps_shape l"
    and "shape4 (vy (velocity fluid)) = (B, H, W, C)" "0 < B" "0 < C"
    and "shape4 (vx (velocity fluid)) = (B', H', W', C')" "0 < C'"
    and "shape3 rd_array = (L, R, K)" "20 < L" "0 < R" "0 < K"
    and "bc_dim (slice_len R 0 res) (slice_len W 0 res)"
  shows "returns (snd (step l self fluid rd_array res dt obstacles g de ve))"
  using assms by (rule step_returns)

theorem step_no_validation_witness:
  "lib_total lib0 \<and> lib_keeps_shape lib0 \<and>
   shape4 (vy (velocity fluid_invalid)) = (1, 3, 2, 1) \<and>
   shape4 (vx (velocity fluid_invalid)) = (1, 2, 3, 1) \<and>
   shape3 (rd0 (Fin 5)) = (21, 2, 2) \<and> bc_dim (slice_len 2 0 2) (slice_len 2 0 2) \<and>
   returns (snd (step lib0 self0 fluid_invalid (rd0 (Fin 5)) 2 (Fin 0) [] g0 [] []))"
proof -
  have a: "shape4 (vy (velocity fluid_invalid)) = (1, 3, 2, 1)"
    and b: "shape4 (vx (velocity fluid_invalid)) = (1, 2, 3, 1)"
    by (simp_all add: fluid_invalid_def fluid0_def const_staggered_def const_arr_def)
  have c: "shape3 (rd0 (Fin 5)) = (21, 2, 2)" by (simp add: rd0_def)
  have d: "bc_dim (slice_len 2 0 2) (slice_len 2 0 2)" by (simp add: bc_dim_def)
  from step_no_validation[OF lib0_total lib0_keeps_shape a _ _ b _ c _ _ _ d]
  have "returns (snd (step lib0 self0 fluid_invalid (rd0 (Fin 5)) 2 (Fin 0) [] g0 [] []))" by simp
  with a b c d lib0_total lib0_keeps_shape show ?thesis by simp
qed

text \<open>
  The claim as stated fails: with \<open>dt = -1\<close>, \<open>Yf = 2\<close>, \<open>Yo = -1\<close>, temperature
  \<open>-5\<close> and density \<open>-1\<close> the step is not rejected; it returns a state whose age
  is \<open>-1\<close>.
\<close>

theorem step_invalid_parameters_counterexample:
  "returns (snd (step lib0 self0 fluid_invalid (rd0 (Fin 5)) 2 (Fin (- 1)) [] g0 [] [])) \<and>
   age (projr (snd (step lib0 self0 fluid_invalid (rd0 (Fin 5)) 2 (Fin (- 1)) [] g0 [] []))) = Fin (- 1) \<and>
   cell4 (gdata (Yf fluid_invalid)) 0 0 0 0 = Fin 2 \<and>
   cell4 (gdata (temperature fluid_invalid)) 0 0 0 0 = Fin (- 5)"
proof -
  let ?S = "step lib0 self0 fluid_invalid (rd0 (Fin 5)) 2 (Fin (- 1)) [] g0 [] []"
  have r: "returns (snd ?S)"
    by (rule example_step_returns)
       (simp_all add: fluid_invalid_def fluid0_def const_staggered_def const_arr_def rd0_def)
  from step_age[OF returns_pair[OF r]] have "age (projr (snd ?S)) = Fin (- 1)"
    by (simp add: fluid_invalid_def fluid0_def)
  with r show ?thesis
    by (simp add: fluid_invalid_def fluid0_def const_grid_def const_arr_def)
qed

text \<open>
  Claim C10, as amended. A step invocation leaves every attribute of the input state
  unchanged except \<open>solve_info\<close>, which line 223 overwrites with the information of
  the pressure solve as soon as \<open>divergence_free\<close> has returned; the returned state
  is a copy of that object with velocity, temperature, density, pressure, \<open>Yf\<close>,
  \<open>Yo\<close> and age replaced, so its constants are those of the input state.
\<close>

theorem step_input_object:
  "(fst (step l self fluid rd_array res dt obstacles g de ve))\<lparr>solve_info := solve_info fluid\<rparr> = fluid
   \<and> (\<forall>rd_yk d2 v5 si. step_projection l self fluid rd_array dt obstacles g de ve = Inr (rd_yk, d2, v5, si)
         \<longrightarrow> fst (step l self fluid rd_array res dt obstacles g de ve) = fluid\<lparr>solve_info := si\<rparr>)
   \<and> (\<forall>out. snd (step l self fluid rd_array res dt obstacles g de ve) = Inr out \<longrightarrow>
        domain out = domain fluid \<and> rd out = rd fluid \<and> Wt out = Wt fluid \<and> Wkf out = Wkf fluid
        \<and> Wko out = Wko fluid \<and> buoyancy_factor out = buoyancy_factor fluid \<and> amp out = amp fluid
        \<and> eq out = eq fluid \<and> age out = fadd (age fluid) dt
        \<and> solve_info out = solve_info (fst (step l self fluid rd_array res dt obstacles g de ve)))"
proof (intro conjI allI impI)
  show "(fst (step l self fluid rd_array res dt obstacles g de ve))\<lparr>solve_info := solve_info fluid\<rparr> = fluid"
    by (simp add: step_def Let_def split: sum.splits prod.splits)
next
  fix rd_yk d2 v5 si
  assume "step_projection l self fluid rd_array dt obstacles g de ve = Inr (rd_yk, d2, v5, si)"
  then show "fst (step l self fluid rd_array res dt obstacles g de ve) = fluid\<lparr>solve_info := si\<rparr>"
    by (simp add: step_def Let_def)
next
  fix out
  let ?S = "step l self fluid rd_array res dt obstacles g de ve"
  assume "snd ?S = Inr out"
  then have "?S = (fst ?S, Inr out)" by (metis prod.collapse)
  from step_Inr[OF this] obtain rd_yk d2 v5 si
    where f1: "fst ?S = fluid\<lparr>solve_info := si\<rparr>"
      and tr: "step_transport l (fst ?S) rd_array res dt rd_yk d2 v5 = Inr out"
    by blast
  from step_transport_frame[OF tr] f1
  show "domain out = domain fluid" "rd out = rd fluid" "Wt out = Wt fluid" "Wkf out = Wkf fluid"
    "Wko out = Wko fluid" "buoyancy_factor out = buoyancy_factor fluid" "amp out = amp fluid"
    "eq out = eq fluid" "age out = fadd (age fluid) dt" "solve_info out = solve_info (fst ?S)"
    by simp_all
qed

theorem step_input_object_counterexample:
  "solve_info (fluid0 (Fin 101325)) = [] \<and>
   length (solve_info (fst (step0 (Fin 101325) (rd0 (Fin 5))))) = 3 \<and>
   fst (step0 (Fin 101325) (rd0 (Fin 5))) \<noteq> fluid0 (Fin 101325)"
proof -
  have "shape3 (rd0 (Fin 5)) = (21, 2, 2)" by (simp add: rd0_def)
  from step_solve_info[OF lib0_total lib0_keeps_shape this, where self = self0
      and fluid = "fluid0 (Fin 101325)" and res = 2 and dt = "Fin 0.01" and obs = "[]" and g = g0
      and de = "[]" and ve = "[]"]
  have l: "length (solve_info (fst (step0 (Fin 101325) (rd0 (Fin 5))))) = 3"
    by (auto simp: step0_def)
  moreover have e: "solve_info (fluid0 (Fin 101325)) = []" by (simp add: fluid0_def)
  ultimately have "fst (step0 (Fin 101325) (rd0 (Fin 5))) \<noteq> fluid0 (Fin 101325)" by auto
  with l e show ?thesis by simp
qed

theorem step_input_object_witness:
  "(fst (step0 (Fin 101325) (rd0 (Fin 5))))\<lparr>solve_info := solve_info (fluid0 (Fin 101325))\<rparr> = fluid0 (Fin 101325)
   \<and> returns (snd (step0 (Fin 101325) (rd0 (Fin 5))))
   \<and> Wt (projr (snd (step0 (Fin 101325) (rd0 (Fin 5))))) = Wt (fluid0 (Fin 101325))
   \<and> age (projr (snd (step0 (Fin 101325) (rd0 (Fin 5))))) = Fin 0.01"
proof -
  let ?S = "step0 (Fin 101325) (rd0 (Fin 5))"
  have r: "returns (snd ?S)" by (rule step0_returns)
  then have s: "snd ?S = Inr (projr (snd ?S))" by (rule returns_projr)
  note t = step_input_object[where l = lib0 and self = self0 and fluid = "fluid0 (Fin 101325)"
      and rd_array = "rd0 (Fin 5)" and res = 2 and dt = "Fin 0.01" and obstacles = "[]" and g = g0
      and de = "[]" and ve = "[]", folded step0_def]
  from t have a: "(fst ?S)\<lparr>solve_info := solve_info (fluid0 (Fin 101325))\<rparr> = fluid0 (Fin 101325)"
    by blast
  from t s have "Wt (projr (snd ?S)) = Wt (fluid0 (Fin 101325))"
    and "age (projr (snd ?S)) = fadd (age (fluid0 (Fin 101325))) (Fin 0.01)"
    by blast+
  then have "Wt (projr (snd ?S)) = Wt (fluid0 (Fin 101325))"
    and "age (projr (snd ?S)) = Fin 0.01"
    by (simp_all add: fluid0_def)
  with a r show ?thesis by simp
qed

text \<open>
  Claim C2, as amended. For every step invocation that returns (with any \<open>dt\<close>, in
  particular \<open>dt \<ge> 0\<close>), at every cell of the bottom row the returned \<open>Yf\<close> equals
  exactly \<open>Zf_max\<close> and the returned \<open>Yo\<close> equals exactly \<open>Zo_min\<close> when the value
  that advection, diffusion and the source term of lines 242-248 left there is finite;
  when that value is NaN or infinite the returned cell is NaN. Here
  \<open>(Zf_min, Zf_max, Zo_min, Zo_max) = get_min_max_zf_zo (eq fluid)\<close>.
\<close>

theorem species_bottom_row:
  assumes "step l self fluid rd_array res dt obstacles g de ve = (fluid1, Inr out)"
      and "get_min_max_zf_zo (eq fluid) = (Zf_min, Zf_max, Zo_min, Zo_max)"
  shows "\<exists>Y1 Y2 O1 O2.
           semi_lagrangian_c l (Yf fluid) (velocity out) dt = Inr Y1
         \<and> diffuse_c l Y1 (fmul (Fin 0.1) dt) 1 = Inr Y2
         \<and> semi_lagrangian_c l (Yo fluid) (velocity out) dt = Inr O1
         \<and> diffuse_c l O1 (fmul (Fin 0.1) dt) 1 = Inr O2
         \<and> (\<forall>b j c. in_shape4 (gdata (Yf out)) b 0 j c \<longrightarrow>
               cell4 (gdata (Yf out)) b 0 j c =
                 (if is_finite (cell4 (gdata (add_source Y2 (Wkf fluid) dt (density out))) b 0 j c)
                  then Fin Zf_max else NaN))
         \<and> (\<forall>b j c. in_shape4 (gdata (Yo out)) b 0 j c \<longrightarrow>
               cell4 (gdata (Yo out)) b 0 j c =
                 (if is_finite (cell4 (gdata (add_source O2 (Wko fluid) dt (density out))) b 0 j c)
                  then Fin Zo_min else NaN))"
proof -
  from step_scalars[OF assms] obtain Y1 Y2 O1 O2
    where a: "semi_lagrangian_c l (Yf fluid) (velocity out) dt = Inr Y1"
      "diffuse_c l Y1 (fmul (Fin 0.1) dt) 1 = Inr Y2"
      "semi_lagrangian_c l (Yo fluid) (velocity out) dt = Inr O1"
      "diffuse_c l O1 (fmul (Fin 0.1) dt) 1 = Inr O2"
      and yf: "Yf out = species_bc Zf_max (add_source Y2 (Wkf fluid) dt (density out))"
      and yo: "Yo out = species_bc Zo_min (add_source O2 (Wko fluid) dt (density out))"
    by blast
  have "\<forall>b j c. in_shape4 (gdata (Yf out)) b 0 j c \<longrightarrow>
               cell4 (gdata (Yf out)) b 0 j c =
                 (if is_finite (cell4 (gdata (add_source Y2 (Wkf fluid) dt (density out))) b 0 j c)
                  then Fin Zf_max else NaN)"
    unfolding yf by (intro allI impI) (rule species_bc_bottom)
  moreover have "\<forall>b j c. in_shape4 (gdata (Yo out)) b 0 j c \<longrightarrow>
               cell4 (gdata (Yo out)) b 0 j c =
                 (if is_finite (cell4 (gdata (add_source O2 (Wko fluid) dt (density out))) b 0 j c)
                  then Fin Zo_min else NaN)"
    unfolding yo by (intro allI impI) (rule species_bc_bottom)
  ultimately show ?thesis using a by blast
qed

theorem species_bottom_row_witness:
  "returns (snd (step0 (Fin 101325) (rd0 (Fin 5)))) \<and>
   get_min_max_zf_zo (eq (fluid0 (Fin 101325))) = (20 / 449, 25 / 454, 429 / 454, 429 / 449) \<and>
   in_shape4 (gdata (Yf (projr (snd (step0 (Fin 101325) (rd0 (Fin 5))))))) 0 0 0 0 \<and>
   in_shape4 (gdata (Yo (projr (snd (step0 (Fin 101325) (rd0 (Fin 5))))))) 0 0 0 0 \<and>
   cell4 (gdata (Yf (projr (snd (step0 (Fin 101325) (rd0 (Fin 5))))))) 0 0 0 0 = Fin (25 / 454) \<and>
   cell4 (gdata (Yo (projr (snd (step0 (Fin 101325) (rd0 (Fin 5))))))) 0 0 0 0 = Fin (429 / 454)"
proof -
  let ?S = "step0 (Fin 101325) (rd0 (Fin 5))"
  let ?out = "projr (snd ?S)"
  let ?d = "state_equation (const_grid (Fin 101325)) (const_grid (Fin 800)) (const_grid (Fin 1))
              (const_grid (Fin 0))"
  have r: "returns (snd ?S)" by (rule step0_returns)
  note e = returns_pair[OF r, unfolded step0_def]
  have mm: "get_min_max_zf_zo (eq (fluid0 (Fin 101325))) = (20 / 449, 25 / 454, 429 / 454, 429 / 449)"
    by (simp add: get_min_max_zf_zo_def Let_def)
  have sf: "in_shape4 (gdata (Yf ?out)) 0 0 0 0" and so: "in_shape4 (gdata (Yo ?out)) 0 0 0 0"
    by (simp_all add: in_shape4_def step0_shapes)
  have d: "density ?out = ?d" using step_density[OF e] by (simp add: step0_def fluid0_def)
  from species_bottom_row[OF e mm] obtain Y2 O2
    where y2: "Y2 = const_grid (Fin 1)" and o2: "O2 = const_grid (Fin 0)"
      and yf: "\<forall>b j c. in_shape4 (gdata (Yf ?out)) b 0 j c \<longrightarrow>
               cell4 (gdata (Yf ?out)) b 0 j c =
                 (if is_finite (cell4 (gdata (add_source Y2 (Wkf (fluid0 (Fin 101325))) (Fin 0.01) (density ?out))) b 0 j c)
                  then Fin (25 / 454) else NaN)"
      and yo: "\<forall>b j c. in_shape4 (gdata (Yo ?out)) b 0 j c \<longrightarrow>
               cell4 (gdata (Yo ?out)) b 0 j c =
                 (if is_finite (cell4 (gdata (add_source O2 (Wko (fluid0 (Fin 101325))) (Fin 0.01) (density ?out))) b 0 j c)
                  then Fin (429 / 454) else NaN)"
    by (auto simp: step0_def fluid0_def lib0_def)
  from yf sf have "cell4 (gdata (Yf ?out)) 0 0 0 0 = Fin (25 / 454)"
    unfolding y2 d by (simp add: fluid0_def cell_eval)
  moreover from yo so have "cell4 (gdata (Yo ?out)) 0 0 0 0 = Fin (429 / 454)"
    unfolding o2 d by (simp add: fluid0_def cell_eval)
  ultimately show ?thesis using r mm sf so by simp
qed

text \<open>
  The claim as stated fails: the boundary is applied as \<open>Y * mask + value\<close>, and
  \<open>NaN * 0 + Zf_max\<close> is NaN. With zero pressure in the uniform example state all
  inputs are finite, the density of line 209 is zero, the source term
  \<open>Wkf * dt * density ** -1\<close> is \<open>0 * inf\<close>, and the bottom row of the returned \<open>Yf\<close>
  and \<open>Yo\<close> is NaN.
\<close>

theorem species_bottom_row_counterexample:
  "returns (snd (step0 (Fin 0) (rd0 (Fin 5)))) \<and>
   get_min_max_zf_zo (eq (fluid0 (Fin 0))) = (20 / 449, 25 / 454, 429 / 454, 429 / 449) \<and>
   in_shape4 (gdata (Yf (projr (snd (step0 (Fin 0) (rd0 (Fin 5))))))) 0 0 0 0 \<and>
   in_shape4 (gdata (Yo (projr (snd (step0 (Fin 0) (rd0 (Fin 5))))))) 0 0 0 0 \<and>
   cell4 (gdata (Yf (projr (snd (step0 (Fin 0) (rd0 (Fin 5))))))) 0 0 0 0 \<noteq> Fin (25 / 454) \<and>
   cell4 (gdata (Yo (projr (snd (step0 (Fin 0) (rd0 (Fin 5))))))) 0 0 0 0 \<noteq> Fin (429 / 454) \<and>
   cell4 (gdata (Yf (projr (snd (step0 (Fin 0) (rd0 (Fin 5))))))) 0 0 0 0 = NaN"
  by (simp add: step0_returns step0_cells_zero_pressure in_shape4_def step0_shapes
      get_min_max_zf_zo_def Let_def)

text \<open>
  Claim C3, as amended. For every step invocation with \<open>res \<ge> 2\<close> that returns, the
  returned temperature equals 800 at every cell of the bottom row and 2000 at every
  cell of row \<open>res - 1\<close> where the temperature left by advection, diffusion and the
  heat term of line 239 is finite, and is NaN where that value is NaN or infinite;
  the returned x-velocity (component 0 of its data) is zero at every location of its
  bottom row where the projected velocity is finite, and NaN where it is not.
\<close>

theorem temperature_rows_and_bottom_x_velocity:
  assumes "step l self fluid rd_array res dt obstacles g de ve = (fluid1, Inr out)" and "2 \<le> res"
  shows "\<exists>rd_yk d2 v5 si T1 T2.
           step_projection l self fluid rd_array dt obstacles g de ve = Inr (rd_yk, d2, v5, si)
         \<and> semi_lagrangian_c l (temperature fluid) (velocity out) dt = Inr T1
         \<and> diffuse_c l T1 (fmul dt (Fin 0.1)) 1 = Inr T2
         \<and> (\<forall>b j c. in_shape4 (gdata (temperature out)) b 0 j c \<longrightarrow>
               cell4 (gdata (temperature out)) b 0 j c =
                 (if is_finite (cell4 (gdata (sub_heat T2 (Wt fluid) dt (density out))) b 0 j c)
                  then Fin 800 else NaN))
         \<and> (\<forall>b j c. in_shape4 (gdata (temperature out)) b (nat (res - 1)) j c \<longrightarrow>
               cell4 (gdata (temperature out)) b (nat (res - 1)) j c =
                 (if is_finite (cell4 (gdata (sub_heat T2 (Wt fluid) dt (density out))) b (nat (res - 1)) j c)
                  then Fin 2000 else NaN))
         \<and> (\<forall>b j. in_shape4 (vx (velocity out)) b 0 j 0 \<longrightarrow>
               (if is_finite (cell4 (vx v5) b 0 j 0) then is_zero (cell4 (vx (velocity out)) b 0 j 0)
                else cell4 (vx (velocity out)) b 0 j 0 = NaN))"
proof -
  obtain z1 z2 z3 z4 where mm: "get_min_max_zf_zo (eq fluid) = (z1, z2, z3, z4)"
    by (metis prod_cases4)
  from step_scalars[OF assms(1) mm] obtain T1 T2
    where a: "semi_lagrangian_c l (temperature fluid) (velocity out) dt = Inr T1"
      "diffuse_c l T1 (fmul dt (Fin 0.1)) 1 = Inr T2"
      and t: "temperature out = temperature_bc res (sub_heat T2 (Wt fluid) dt (density out))"
    by blast
  from step_velocity[OF assms(1)] obtain rd_yk d2 v5 si
    where pr: "step_projection l self fluid rd_array dt obstacles g de ve = Inr (rd_yk, d2, v5, si)"
      and vb: "velocity_bc v5 rd_array res rd_yk (eq fluid) = Inr (velocity out)"
    by blast
  have bot: "\<forall>b j c. in_shape4 (gdata (temperature out)) b 0 j c \<longrightarrow>
               cell4 (gdata (temperature out)) b 0 j c =
                 (if is_finite (cell4 (gdata (sub_heat T2 (Wt fluid) dt (density out))) b 0 j c)
                  then Fin 800 else NaN)"
    unfolding t using assms(2) by (intro allI impI) (rule temperature_bc_bottom)
  have top: "\<forall>b j c. in_shape4 (gdata (temperature out)) b (nat (res - 1)) j c \<longrightarrow>
               cell4 (gdata (temperature out)) b (nat (res - 1)) j c =
                 (if is_finite (cell4 (gdata (sub_heat T2 (Wt fluid) dt (density out))) b (nat (res - 1)) j c)
                  then Fin 2000 else NaN)"
    unfolding t using assms(2) by (intro allI impI) (rule temperature_bc_top)
  have vel: "\<forall>b j. in_shape4 (vx (velocity out)) b 0 j 0 \<longrightarrow>
               (if is_finite (cell4 (vx v5) b 0 j 0) then is_zero (cell4 (vx (velocity out)) b 0 j 0)
                else cell4 (vx (velocity out)) b 0 j 0 = NaN)"
  proof (intro allI impI)
    fix b j
    assume "in_shape4 (vx (velocity out)) b 0 j 0"
    then have "0 < fst (snd (shape4 (vx v5)))"
      by (cases "shape4 (vx v5)") (simp add: in_shape4_def velocity_bc_vx(1)[OF vb])
    then have "cell4 (vx (velocity out)) b 0 j 0 = fmul (cell4 (vx v5) b 0 j 0) (Fin 0)"
      by (simp add: velocity_bc_vx(2)[OF vb])
    then show "if is_finite (cell4 (vx v5) b 0 j 0) then is_zero (cell4 (vx (velocity out)) b 0 j 0)
                else cell4 (vx (velocity out)) b 0 j 0 = NaN"
      by (simp add: fmul_zero_finite fmul_zero_nonfinite)
  qed
  from pr a bot top vel show ?thesis by blast
qed

theorem temperature_rows_and_bottom_x_velocity_witness:
  "returns (snd (step0 (Fin 101325) (rd0 (Fin 5)))) \<and> (2::int) \<le> 2 \<and>
   in_shape4 (gdata (temperature (projr (snd (step0 (Fin 101325) (rd0 (Fin 5))))))) 0 0 0 0 \<and>
   in_shape4 (gdata (temperature (projr (snd (step0 (Fin 101325) (rd0 (Fin 5))))))) 0 (nat (2 - 1)) 0 0 \<and>
   in_shape4 (vx (velocity (projr (snd (step0 (Fin 101325) (rd0 (Fin 5))))))) 0 0 0 0 \<and>
   cell4 (gdata (temperature (projr (snd (step0 (Fin 101325) (rd0 (Fin 5))))))) 0 0 0 0 = Fin 800 \<and>
   cell4 (gdata (temperature (projr (snd (step0 (Fin 101325) (rd0 (Fin 5))))))) 0 (nat (2 - 1)) 0 0 = Fin 2000 \<and>
   is_zero (cell4 (vx (velocity (projr (snd (step0 (Fin 101325) (rd0 (Fin 5))))))) 0 0 0 0)"
proof -
  let ?S = "step0 (Fin 101325) (rd0 (Fin 5))"
  let ?out = "projr (snd ?S)"
  let ?d = "state_equation (const_grid (Fin 101325)) (const_grid (Fin 800)) (const_grid (Fin 1))
              (const_grid (Fin 0))"
  have r: "returns (snd ?S)" by (rule step0_returns)
  note e = returns_pair[OF r, unfolded step0_def]
  have d: "density ?out = ?d" using step_density[OF e] by (simp add: step0_def fluid0_def)
  have st: "in_shape4 (gdata (temperature ?out)) 0 0 0 0"
    "in_shape4 (gdata (temperature ?out)) 0 (nat (2 - 1)) 0 0"
    by (simp_all add: in_shape4_def step0_shapes)
  from temperature_rows_and_bottom_x_velocity[OF e, folded step0_def] obtain rd_yk d2 v5 si T1 T2
    where pr: "step_projection lib0 self0 (fluid0 (Fin 101325)) (rd0 (Fin 5)) (Fin 0.01) [] g0 [] [] =
               Inr (rd_yk, d2, v5, si)"
      and a1: "semi_lagrangian_c lib0 (temperature (fluid0 (Fin 101325))) (velocity ?out) (Fin 0.01) = Inr T1"
      and a2: "diffuse_c lib0 T1 (fmul (Fin 0.01) (Fin 0.1)) 1 = Inr T2"
      and bot: "\<forall>b j c. in_shape4 (gdata (temperature ?out)) b 0 j c \<longrightarrow>
               cell4 (gdata (temperature ?out)) b 0 j c =
                 (if is_finite (cell4 (gdata (sub_heat T2 (Wt (fluid0 (Fin 101325))) (Fin 0.01) (density ?out))) b 0 j c)
                  then Fin 800 else NaN)"
      and top: "\<forall>b j c. in_shape4 (gdata (temperature ?out)) b (nat (2 - 1)) j c \<longrightarrow>
               cell4 (gdata (temperature ?out)) b (nat (2 - 1)) j c =
                 (if is_finite (cell4 (gdata (sub_heat T2 (Wt (fluid0 (Fin 101325))) (Fin 0.01) (density ?out))) b (nat (2 - 1)) j c)
                  then Fin 2000 else NaN)"
      and vel: "\<forall>b j. in_shape4 (vx (velocity ?out)) b 0 j 0 \<longrightarrow>
               (if is_finite (cell4 (vx v5) b 0 j 0) then is_zero (cell4 (vx (velocity ?out)) b 0 j 0)
                else cell4 (vx (velocity ?out)) b 0 j 0 = NaN)"
    by (simp only: numeral_le_iff semiring_norm) blast
  from a1 a2 have t2: "T2 = const_grid (Fin 800)" by (simp add: lib0_def fluid0_def)
  from step_velocity[OF e, folded step0_def] obtain rd_yk' d2' v5' si'
    where pr': "step_projection lib0 self0 (fluid0 (Fin 101325)) (rd0 (Fin 5)) (Fin 0.01) [] g0 [] [] =
               Inr (rd_yk', d2', v5', si')"
      and vb: "velocity_bc v5' (rd0 (Fin 5)) 2 rd_yk' (eq (fluid0 (Fin 101325))) = Inr (velocity ?out)"
    by blast
  from pr pr' have "v5' = v5" by simp
  with vb have "shape4 (vx (velocity ?out)) = shape4 (vx v5)" by (simp add: velocity_bc_vx(1))
  then have sv: "in_shape4 (vx (velocity ?out)) 0 0 0 0"
    by (simp add: in_shape4_def step0_projection(1)[OF pr])
  from bot st(1) have "cell4 (gdata (temperature ?out)) 0 0 0 0 = Fin 800"
    unfolding t2 d by (simp add: fluid0_def cell_eval)
  moreover from top st(2) have "cell4 (gdata (temperature ?out)) 0 (nat (2 - 1)) 0 0 = Fin 2000"
    unfolding t2 d by (simp add: fluid0_def cell_eval)
  moreover from vel sv have "is_zero (cell4 (vx (velocity ?out)) 0 0 0 0)"
    by (simp add: step0_projection(3)[OF pr])
  ultimately show ?thesis using r st sv by simp
qed

text \<open>
  The claim as stated fails: the temperature boundary is
  \<open>temperature * temp_mask + tempBC\<close>, and \<open>NaN * 0 + 800\<close> is NaN. With zero
  pressure in the uniform example state the density is zero, the heat term
  \<open>Wt * dt * (density * cp) ** -1\<close> is \<open>0 * inf\<close>, and both boundary rows of the
  returned temperature are NaN.
\<close>

theorem temperature_rows_counterexample:
  "returns (snd (step0 (Fin 0) (rd0 (Fin 5)))) \<and> (2::int) \<le> 2 \<and>
   in_shape4 (gdata (temperature (projr (snd (step0 (Fin 0) (rd0 (Fin 5))))))) 0 0 0 0 \<and>
   in_shape4 (gdata (temperature (projr (snd (step0 (Fin 0) (rd0 (Fin 5))))))) 0 1 0 0 \<and>
   cell4 (gdata (temperature (projr (snd (step0 (Fin 0) (rd0 (Fin 5))))))) 0 0 0 0 \<noteq> Fin 800 \<and>
   cell4 (gdata (temperature (projr (snd (step0 (Fin 0) (rd0 (Fin 5))))))) 0 1 0 0 \<noteq> Fin 2000 \<and>
   cell4 (gdata (temperature (projr (snd (step0 (Fin 0) (rd0 (Fin 5))))))) 0 0 0 0 = NaN"
  using step0_cells_zero_pressure
  by (simp add: step0_returns in_shape4_def step0_shapes)

text \<open>
  Claim C6, as amended. For every call \<open>VelocityBoundary_y(field, rd_array, res, rd_yk,
  equi_ratio)\<close> that returns, with \<open>res \<ge> 0\<close>, a y-velocity array of shape
  \<open>(B, H, W, C)\<close> that has at least one row (\<open>H > 0\<close>) and a roughness array whose second
  axis has the length \<open>W\<close> of the y-velocity's column axis: the returned array \<open>velBCy\<close> has
  the shape of the y-velocity; its cell \<open>(0, 0, j, 0)\<close> is \<open>|rd_array[0, j, 0]| * 4 + 6\<close> for
  every column \<open>j < W\<close> with \<open>j < res\<close>; its cell \<open>(0, 0, res, 0)\<close> is
  \<open>|rd_array[0, W - 1, 0]| * 4 + 6\<close> when \<open>res < W\<close>; every other cell is \<open>0\<close>. The values are
  read from layer 0, column 0 of the array \<open>rd_array\<close> (at line 227 the step passes its own
  roughness array, not normalized), and the call returns the same pair of arrays whatever
  \<open>rd_yk\<close> (the normalized slice 20) and \<open>equi_ratio\<close> are.
\<close>

theorem VelocityBoundary_y_values:
  assumes "VelocityBoundary_y field rd_array res rd_yk eqr = Inr (velBCy, velBCyMask)"
    and "shape4 (vy field) = (B, H, W, C)" and "shape3 rd_array = (L, W, K)"
    and "0 \<le> res" and "0 < H"
  shows "shape4 velBCy = (B, H, W, C)
       \<and> (\<forall>b i j c. cell4 velBCy b i j c =
            (if b = 0 \<and> i = 0 \<and> c = 0 \<and> j < W \<and> int j < res then inflow (cell3 rd_array 0 j 0)
             else if b = 0 \<and> i = 0 \<and> c = 0 \<and> j < W \<and> int j = res
               then inflow (cell3 rd_array 0 (W - 1) 0)
             else Fin 0))
       \<and> VelocityBoundary_y field rd_array res rd_yk' eqr' = Inr (velBCy, velBCyMask)"
proof (intro conjI allI)
  show "shape4 velBCy = (B, H, W, C)" by (rule VelocityBoundary_y_Inr(1)[OF assms(1-3)])
next
  fix b i j c
  have a: "in_slice W res (res + 1) j \<longleftrightarrow> j < W \<and> int j = res"
    using assms(4) by (auto simp: in_slice_res)
  have b: "in_slice W 0 res j \<longleftrightarrow> j < W \<and> int j < res"
    using assms(4) by (simp add: in_slice_0_res)
  have c: "j < W \<and> int j < res \<Longrightarrow> (if slice_len W 0 res = 1 then 0 else j) = j"
    using slice_len_one[OF assms(4)] by auto
  show "cell4 velBCy b i j c =
            (if b = 0 \<and> i = 0 \<and> c = 0 \<and> j < W \<and> int j < res then inflow (cell3 rd_array 0 j 0)
             else if b = 0 \<and> i = 0 \<and> c = 0 \<and> j < W \<and> int j = res
               then inflow (cell3 rd_array 0 (W - 1) 0)
             else Fin 0)"
    unfolding VelocityBoundary_y_Inr(4)[OF assms(1-3)] a b using assms(5) c by auto
next
  show "VelocityBoundary_y field rd_array res rd_yk' eqr' = Inr (velBCy, velBCyMask)"
    using assms(1) by (simp add: VelocityBoundary_y_def)
qed

theorem VelocityBoundary_y_values_witness:
  "returns (VelocityBoundary_y (const_staggered (Fin 0)) (rd0 (Fin 5)) 2 rd_yk0 (Fin 1)) \<and>
   shape4 (vy (const_staggered (Fin 0))) = (1, 3, 2, 1) \<and> shape3 (rd0 (Fin 5)) = (21, 2, 2) \<and>
   shape4 (fst (projr (VelocityBoundary_y (const_staggered (Fin 0)) (rd0 (Fin 5)) 2 rd_yk0 (Fin 1)))) = (1, 3, 2, 1) \<and>
   cell4 (fst (projr (VelocityBoundary_y (const_staggered (Fin 0)) (rd0 (Fin 5)) 2 rd_yk0 (Fin 1)))) 0 0 0 0 = Fin 26 \<and>
   cell4 (fst (projr (VelocityBoundary_y (const_staggered (Fin 0)) (rd0 (Fin 5)) 2 rd_yk0 (Fin 1)))) 0 0 1 0 = Fin 26 \<and>
   cell4 (fst (projr (VelocityBoundary_y (const_staggered (Fin 0)) (rd0 (Fin 5)) 2 rd_yk0 (Fin 1)))) 0 1 0 0 = Fin 0"
proof -
  let ?V = "VelocityBoundary_y (const_staggered (Fin 0)) (rd0 (Fin 5)) 2 rd_yk0 (Fin 1)"
  have s: "shape4 (vy (const_staggered (Fin 0))) = (1, 3, 2, 1)" "shape3 (rd0 (Fin 5)) = (21, 2, 2)"
    by (simp_all add: const_staggered_def const_arr_def rd0_def)
  from VelocityBoundary_y_returns[OF s(1) _ _ s(2), of 2 rd_yk0 "Fin 1"]
  have r: "returns ?V" by (simp add: returns_iff bc_dim_def)
  then have "?V = Inr (fst (projr ?V), snd (projr ?V))" by (simp add: returns_projr[symmetric])
  from VelocityBoundary_y_values[OF this s, of rd_yk0 "Fin 1"]
  have sh: "shape4 (fst (projr ?V)) = (1, 3, 2, 1)"
    and "cell4 (fst (projr ?V)) 0 0 0 0 = inflow (cell3 (rd0 (Fin 5)) 0 0 0)"
    and "cell4 (fst (projr ?V)) 0 0 1 0 = inflow (cell3 (rd0 (Fin 5)) 0 1 0)"
    and z: "cell4 (fst (projr ?V)) 0 1 0 0 = Fin 0"
    by simp_all
  then have "cell4 (fst (projr ?V)) 0 0 0 0 = Fin 26" "cell4 (fst (projr ?V)) 0 0 1 0 = Fin 26"
    by (simp_all add: rd0_def inflow_def fmul_def)
  with r s sh z show ?thesis by simp
qed

text \<open>
  Claim C6 as originally stated does not hold. For the roughness array whose slice 20 holds
  \<open>row + column\<close> and whose other layers hold \<open>5\<close>, the normalized slice 20 is
  \<open>((0, 1/2), (1/2, 1))\<close>, so \<open>|rd_yk| * 4 + 6\<close> takes the values \<open>6\<close>, \<open>8\<close>, \<open>8\<close> and \<open>10\<close>;
  the step of the example state returns a y-velocity whose bottom-left cell is \<open>26\<close>
  (\<open>|5| * 4 + 6\<close>, from layer 0). With the other layers set to \<open>7\<close> and the same slice 20 the
  cell is \<open>34\<close>: the step reads the roughness array outside slice 20.
\<close>

theorem bottom_inflow_counterexample:
  "returns (bind_r (layer20 (rd0 (Fin 5))) normalize) \<and>
   inflow (cell2 (projr (bind_r (layer20 (rd0 (Fin 5))) normalize)) 0 0) = Fin 6 \<and>
   inflow (cell2 (projr (bind_r (layer20 (rd0 (Fin 5))) normalize)) 0 1) = Fin 8 \<and>
   inflow (cell2 (projr (bind_r (layer20 (rd0 (Fin 5))) normalize)) 1 0) = Fin 8 \<and>
   inflow (cell2 (projr (bind_r (layer20 (rd0 (Fin 5))) normalize)) 1 1) = Fin 10 \<and>
   returns (snd (step0 (Fin 101325) (rd0 (Fin 5)))) \<and>
   cell4 (vy (velocity (projr (snd (step0 (Fin 101325) (rd0 (Fin 5))))))) 0 0 0 0 = Fin 26 \<and>
   layer20 (rd0 (Fin 7)) = layer20 (rd0 (Fin 5)) \<and>
   returns (snd (step0 (Fin 101325) (rd0 (Fin 7)))) \<and>
   cell4 (vy (velocity (projr (snd (step0 (Fin 101325) (rd0 (Fin 7))))))) 0 0 0 0 = Fin 34"
proof -
  have a: "fadd (Fin 0) (inflow (Fin 5)) = Fin 26" "fadd (Fin 0) (inflow (Fin 7)) = Fin 34"
    by (simp_all add: inflow_def fmul_def zero_of_def)
  have b: "inflow (Fin 0) = Fin 6" "inflow (Fin (1 / 2)) = Fin 8" "inflow (Fin 1) = Fin 10"
    by (simp_all add: inflow_def fmul_def zero_of_def)
  show ?thesis
    using normalize_rd0[of "Fin 5"]
    by (simp only: step0_returns step0_vy_cell a b layer20_rd0[of "Fin 7" "Fin 5"] simp_thms)
qed

text \<open>
  Claim C7, as amended. Two fields count as the same when they have the same shape, the same
  box and the same cell at every index, a NaN cell of the one being a NaN cell of the other.
  For every species field and every boundary value, the species update of lines 250-257
  applied to its own result gives that result again; so does the temperature update of lines
  259-265, for every temperature field and every \<open>res\<close>. For every velocity, roughness array
  and \<open>res\<close> for which the velocity update of lines 225-231 returns a velocity \<open>w\<close>, the same
  update applied to \<open>w\<close> returns too, and its result has the x-component and the box of \<open>w\<close>
  and a y-component of the shape of that of \<open>w\<close>; the y-component itself is that of \<open>w\<close>
  provided that for no row \<open>j\<close> of the roughness array the value \<open>|rd_array[0, j, 0]| * 4 + 6\<close>
  is infinite.
\<close>

theorem boundary_update_twice:
  "species_bc z (species_bc z Y) = species_bc z Y
   \<and> temperature_bc res (temperature_bc res T) = temperature_bc res T
   \<and> (\<forall>w. velocity_bc v rd_array res rd_yk eqr = Inr w \<longrightarrow>
        (\<exists>w'. velocity_bc w rd_array res rd_yk eqr = Inr w' \<and> vx w' = vx w \<and> sbox w' = sbox w
           \<and> shape4 (vy w') = shape4 (vy w)
           \<and> ((\<forall>j < fst (snd (shape3 rd_array)). \<not> is_inf (inflow (cell3 rd_array 0 j 0)))
                \<longrightarrow> vy w' = vy w)))"
  using species_bc_twice temperature_bc_twice velocity_bc_twice by blast

theorem boundary_update_twice_witness:
  "species_bc 1 (species_bc 1 (const_grid (Fin 3))) = species_bc 1 (const_grid (Fin 3)) \<and>
   temperature_bc 2 (temperature_bc 2 (const_grid (Fin 300))) = temperature_bc 2 (const_grid (Fin 300)) \<and>
   returns (velocity_bc (const_staggered (Fin 1)) (rd0 (Fin 5)) 2 rd_yk0 (Fin 1)) \<and>
   inflow (cell3 (rd0 (Fin 5)) 0 0 0) = Fin 26 \<and>
   inflow (cell3 (rd0 (Fin 5)) 0 1 0) = Fin 26 \<and>
   cell4 (vy (projr (velocity_bc (const_staggered (Fin 1)) (rd0 (Fin 5)) 2 rd_yk0 (Fin 1)))) 0 0 0 0 = Fin 26 \<and>
   velocity_bc (projr (velocity_bc (const_staggered (Fin 1)) (rd0 (Fin 5)) 2 rd_yk0 (Fin 1)))
       (rd0 (Fin 5)) 2 rd_yk0 (Fin 1)
     = velocity_bc (const_staggered (Fin 1)) (rd0 (Fin 5)) 2 rd_yk0 (Fin 1)"
proof -
  let ?V = "velocity_bc (const_staggered (Fin 1)) (rd0 (Fin 5)) 2 rd_yk0 (Fin 1)"
  note t = boundary_update_twice[of 1 "const_grid (Fin 3)" 2 "const_grid (Fin 300)"
      "const_staggered (Fin 1)" "rd0 (Fin 5)" rd_yk0 "Fin 1"]
  have r: "returns ?V" by (rule velocity_bc_example_returns)
  then have e: "?V = Inr (projr ?V)" by (simp add: returns_projr[symmetric])
  have f: "inflow (cell3 (rd0 (Fin 5)) 0 j 0) = Fin 26" for j
    by (simp add: rd0_def inflow_def fmul_def)
  then have n: "\<forall>j < fst (snd (shape3 (rd0 (Fin 5)))). \<not> is_inf (inflow (cell3 (rd0 (Fin 5)) 0 j 0))"
    by simp
  from t e n obtain w' where w': "velocity_bc (projr ?V) (rd0 (Fin 5)) 2 rd_yk0 (Fin 1) = Inr w'"
    "vx w' = vx (projr ?V)" "sbox w' = sbox (projr ?V)" "vy w' = vy (projr ?V)"
    by blast
  then have "w' = projr ?V" by (intro staggered_eqI)
  with w'(1) e have tw: "velocity_bc (projr ?V) (rd0 (Fin 5)) 2 rd_yk0 (Fin 1) = ?V" by simp
  have c: "cell4 (vy (projr ?V)) 0 0 0 0 = Fin 26"
    using velocity_bc_example_cell[OF e]
    by (simp add: const_staggered_def const_arr_def inflow_def fmul_def zero_of_def)
  from t r f c tw show ?thesis by simp
qed

text \<open>
  Claim C7 as originally stated does not hold for the y-component. With a roughness array
  whose layer 0 holds \<open>inf\<close> and the y-velocity \<open>1\<close> everywhere, the first update writes
  \<open>1 * 0 + inf = inf\<close> at the bottom-left cell and the second \<open>inf * 0 + inf\<close>, which is NaN.
\<close>

theorem boundary_update_twice_counterexample:
  "returns (velocity_bc (const_staggered (Fin 1)) (rd0 PInf) 2 rd_yk0 (Fin 1)) \<and>
   cell4 (vy (projr (velocity_bc (const_staggered (Fin 1)) (rd0 PInf) 2 rd_yk0 (Fin 1)))) 0 0 0 0 = PInf \<and>
   returns (velocity_bc (projr (velocity_bc (const_staggered (Fin 1)) (rd0 PInf) 2 rd_yk0 (Fin 1)))
       (rd0 PInf) 2 rd_yk0 (Fin 1)) \<and>
   cell4 (vy (projr (velocity_bc (projr (velocity_bc (const_staggered (Fin 1)) (rd0 PInf) 2 rd_yk0 (Fin 1)))
       (rd0 PInf) 2 rd_yk0 (Fin 1)))) 0 0 0 0 = NaN"
proof -
  let ?V = "velocity_bc (const_staggered (Fin 1)) (rd0 PInf) 2 rd_yk0 (Fin 1)"
  let ?V2 = "velocity_bc (projr ?V) (rd0 PInf) 2 rd_yk0 (Fin 1)"
  have r: "returns ?V" by (rule velocity_bc_example_returns)
  then have e: "?V = Inr (projr ?V)" by (simp add: returns_projr[symmetric])
  have s0: "shape4 (vy (const_staggered (Fin 1))) = (1, 3, 2, 1)"
    by (simp add: const_staggered_def const_arr_def)
  have s3: "shape3 (rd0 PInf) = (21, 2, 2)" by (simp add: rd0_def)
  have s1: "shape4 (vy (projr ?V)) = (1, 3, 2, 1)"
    by (rule velocity_bc_vy(1)[OF e s0 s3])
  have c: "cell4 (vy (projr ?V)) 0 0 0 0 = PInf"
    using velocity_bc_example_cell[OF e s0]
    by (simp add: const_staggered_def const_arr_def inflow_def fmul_def zero_of_def inf_of_def)
  from velocity_bc_twice[OF e] obtain w' where "?V2 = Inr w'" by blast
  then have r2: "returns ?V2" by (simp add: returns_iff)
  then have e2: "?V2 = Inr (projr ?V2)" by (simp add: returns_projr[symmetric])
  have c2: "cell4 (vy (projr ?V2)) 0 0 0 0 = NaN"
    using velocity_bc_example_cell[OF e2 s1]
    by (simp add: c inflow_def fmul_def zero_of_def inf_of_def)
  from r c r2 c2 show ?thesis by simp
qed

text \<open>
  Claim C8, as amended. For every roughness array of shape \<open>(L, R, K)\<close> with more than 20
  layers, at least one row and at least one column, whose slice 20 holds one and the same
  value in every cell: the normalization of lines 206-207 raises nothing and produces an
  array of shape \<open>(R, K)\<close> whose every cell is NaN; and the step call (what it returns or
  raises, and the input object after the call) is exactly that of the same call with any
  roughness array of the same shape that holds the same values outside slice 20, whatever
  its slice 20 holds. No degenerate-input error is raised.
\<close>

theorem constant_slice_not_detected:
  assumes "shape3 rd_array = (L, R, K)" and "20 < L" and "0 < R" and "0 < K"
    and "\<forall>i<R. \<forall>j<K. cell3 rd_array 20 i j = v"
    and "shape3 rd' = (L, R, K)"
    and "\<forall>l i j. l \<noteq> 20 \<longrightarrow> cell3 rd' l i j = cell3 rd_array l i j"
  shows "(\<exists>n. bind_r (layer20 rd_array) normalize = Inr n \<and> shape2 n = (R, K)
             \<and> (\<forall>i<R. \<forall>j<K. cell2 n i j = NaN))
       \<and> step l self fluid rd_array res dt obs g de ve = step l self fluid rd' res dt obs g de ve"
  using normalized_slice_constant[OF assms(1-5)] step_slice20[OF assms(1-4) assms(6,7)]
  by simp

theorem constant_slice_not_detected_witness:
  "shape3 rd_const = (21, 2, 2) \<and>
   cell3 rd_const 20 0 0 = Fin 5 \<and> cell3 rd_const 20 0 1 = Fin 5 \<and>
   cell3 rd_const 20 1 0 = Fin 5 \<and> cell3 rd_const 20 1 1 = Fin 5 \<and>
   shape3 (rd0 (Fin 5)) = (21, 2, 2) \<and>
   returns (bind_r (layer20 rd_const) normalize) \<and>
   shape2 (projr (bind_r (layer20 rd_const) normalize)) = (2, 2) \<and>
   cell2 (projr (bind_r (layer20 rd_const) normalize)) 0 0 = NaN \<and>
   cell2 (projr (bind_r (layer20 rd_const) normalize)) 1 1 = NaN \<and>
   step0 (Fin 101325) rd_const = step0 (Fin 101325) (rd0 (Fin 5))"
proof -
  have h: "shape3 rd_const = (21, 2, 2)" "(20::nat) < 21" "(0::nat) < 2" "(0::nat) < 2"
    "\<forall>i<2. \<forall>j<2. cell3 rd_const 20 i j = Fin 5"
    "shape3 (rd0 (Fin 5)) = (21, 2, 2)"
    "\<forall>l i j. l \<noteq> 20 \<longrightarrow> cell3 (rd0 (Fin 5)) l i j = cell3 rd_const l i j"
    by (simp_all add: rd_const_def rd0_def)
  from constant_slice_not_detected[OF h, of lib0 self0 "fluid0 (Fin 101325)" 2 "Fin 0.01" "[]" g0 "[]" "[]"]
  obtain n where n: "bind_r (layer20 rd_const) normalize = Inr n" "shape2 n = (2, 2)"
      "\<forall>i<2. \<forall>j<2. cell2 n i j = NaN"
    and s: "step0 (Fin 101325) rd_const = step0 (Fin 101325) (rd0 (Fin 5))"
    unfolding step0_def by blast
  from n have "returns (bind_r (layer20 rd_const) normalize)"
    "shape2 (projr (bind_r (layer20 rd_const) normalize)) = (2, 2)"
    "cell2 (projr (bind_r (layer20 rd_const) normalize)) 0 0 = NaN"
    "cell2 (projr (bind_r (layer20 rd_const) normalize)) 1 1 = NaN"
    by (simp_all add: returns_def)
  with rd_const_facts h(6) s show ?thesis by simp
qed

text \<open>
  Claim C8 as originally stated does not hold. With the roughness array that holds \<open>5\<close> in
  every cell, slice 20 is constant; the normalization returns an array of NaN, and the step
  of the example state returns a state instead of raising.
\<close>

theorem constant_slice_counterexample:
  "shape3 rd_const = (21, 2, 2) \<and>
   cell3 rd_const 20 0 0 = Fin 5 \<and> cell3 rd_const 20 0 1 = Fin 5 \<and>
   cell3 rd_const 20 1 0 = Fin 5 \<and> cell3 rd_const 20 1 1 = Fin 5 \<and>
   returns (bind_r (layer20 rd_const) normalize) \<and>
   cell2 (projr (bind_r (layer20 rd_const) normalize)) 0 0 = NaN \<and>
   cell2 (projr (bind_r (layer20 rd_const) normalize)) 0 1 = NaN \<and>
   cell2 (projr (bind_r (layer20 rd_const) normalize)) 1 0 = NaN \<and>
   cell2 (projr (bind_r (layer20 rd_const) normalize)) 1 1 = NaN \<and>
   returns (snd (step0 (Fin 101325) rd_const))"
proof -
  have "returns (snd (step0 (Fin 101325) rd_const))"
    unfolding step0_def
    by (rule example_step_returns)
       (simp_all add: fluid0_def const_staggered_def const_arr_def rd_const_def)
  with rd_const_facts rd_const_normalized show ?thesis by simp
qed

end
